theory Spec2Isabelle
  imports Complex_Main
begin

section \<open>Conventions of the embedding\<close>

text \<open>
  The TypeScript sources are embedded function by function. A JavaScript \<open>number\<close> that
  carries a price, a size or a balance is a \<^typ>\<open>real\<close>: finite doubles are idealised as
  exact reals, so rounding, \<open>NaN\<close> and the infinities have no counterpart here. A division
  whose divisor is zero gives \<open>NaN\<close> or an infinity in the source and \<open>0\<close> in HOL; every
  theorem below that depends on such a division states that the divisor is not zero, or
  has hypotheses from which this follows.
  Timestamps are integers (milliseconds), and \<open>Date.now()\<close> is the argument \<open>now\<close> of the
  function that reads the clock. A value that may be \<open>null\<close> or \<open>undefined\<close> is an
  \<open>option\<close>. A field name shared by several interfaces carries a short prefix of its
  interface.
\<close>

text \<open>JavaScript truthiness of a nullable number: \<open>null\<close> and \<open>0\<close> are falsy.\<close>

definition truthy :: "real option \<Rightarrow> bool" where
  "truthy v = (case v of None \<Rightarrow> False | Some x \<Rightarrow> x \<noteq> 0)"

text \<open>\<open>v || d\<close> for a nullable number \<open>v\<close> and a number \<open>d\<close>.\<close>

definition orElse :: "real option \<Rightarrow> real \<Rightarrow> real" where
  "orElse v d = (case v of None \<Rightarrow> d | Some x \<Rightarrow> if x \<noteq> 0 then x else d)"

text \<open>\<open>a || b || null\<close> for two nullable numbers.\<close>

definition firstTruthy :: "real option \<Rightarrow> real option \<Rightarrow> real option" where
  "firstTruthy a b = (if truthy a then a else if truthy b then b else None)"

section \<open>Market data types (market/types.ts)\<close>

datatype Outcome = YES | NO

record OrderBookLevel =
  lvl_price :: string
  lvl_size :: string

record OutcomePrices =
  bid :: "real option"
  ask :: "real option"
  op_lastUpdate :: int

record MarketData =
  md_marketId :: string
  md_conditionId :: string
  yesPrices :: OutcomePrices
  noPrices :: OutcomePrices
  md_lastUpdate :: int
  md_isStale :: bool

record OrderBookUpdate =
  ob_marketId :: string
  ob_conditionId :: string
  ob_assetId :: string
  ob_outcome :: Outcome
  ob_bids :: "OrderBookLevel list"
  ob_asks :: "OrderBookLevel list"
  ob_timestamp :: int

section \<open>MarketStore (market/marketStore.ts)\<close>

text \<open>
  The store is the map from key to market data and the staleness threshold. The set of
  update callbacks holds closures of other services; whether an update fires them is the
  predicate \<open>firesCallbacks\<close> below.
\<close>

record MarketStore =
  markets :: "string \<rightharpoonup> MarketData"
  staleThresholdMs :: int

definition newMarketStore :: "int \<Rightarrow> MarketStore" where
  "newMarketStore t = \<lparr> markets = Map.empty, staleThresholdMs = t \<rparr>"

definition createEmptyPrices :: OutcomePrices where
  "createEmptyPrices = \<lparr> bid = None, ask = None, op_lastUpdate = 0 \<rparr>"

definition isStale :: "int \<Rightarrow> MarketStore \<Rightarrow> int \<Rightarrow> bool" where
  "isStale now s lastUpdate = (now - lastUpdate > staleThresholdMs s)"

text \<open>
  \<open>extractBestBid\<close> and \<open>extractBestAsk\<close> read the first level of the side and pass its
  price string to the built-in \<open>parseFloat\<close>. The built-in is the parameter \<open>pf\<close>, with
  \<open>None\<close> for \<open>NaN\<close>; the source makes no other test on the parsed number.
\<close>

definition extractBestBid :: "(string \<Rightarrow> real option) \<Rightarrow> OrderBookLevel list \<Rightarrow> real option" where
  "extractBestBid pf bs = (case bs of [] \<Rightarrow> None | bestBid # _ \<Rightarrow> pf (lvl_price bestBid))"

definition extractBestAsk :: "(string \<Rightarrow> real option) \<Rightarrow> OrderBookLevel list \<Rightarrow> real option" where
  "extractBestAsk pf as = (case as of [] \<Rightarrow> None | bestAsk # _ \<Rightarrow> pf (lvl_price bestAsk))"

text \<open>\<open>marketId || conditionId || assetId\<close>: the empty string is falsy.\<close>

definition orStr :: "string \<Rightarrow> string \<Rightarrow> string" where
  "orStr a b = (if a \<noteq> [] then a else b)"

definition updateKey :: "OrderBookUpdate \<Rightarrow> string" where
  "updateKey u = orStr (ob_marketId u) (orStr (ob_conditionId u) (ob_assetId u))"

definition updateOrderBook ::
  "(string \<Rightarrow> real option) \<Rightarrow> int \<Rightarrow> OrderBookUpdate \<Rightarrow> MarketStore \<Rightarrow> MarketStore" where
  "updateOrderBook pf now u s =
     (let key = updateKey u;
          marketData = (case markets s key of
             Some m \<Rightarrow> m
           | None \<Rightarrow> \<lparr> md_marketId = orStr (ob_marketId u) (ob_assetId u),
                       md_conditionId = orStr (ob_conditionId u) (ob_assetId u),
                       yesPrices = createEmptyPrices,
                       noPrices = createEmptyPrices,
                       md_lastUpdate = ob_timestamp u,
                       md_isStale = False \<rparr>);
          bestBid = extractBestBid pf (ob_bids u);
          bestAsk = extractBestAsk pf (ob_asks u);
          prices = \<lparr> bid = bestBid, ask = bestAsk, op_lastUpdate = ob_timestamp u \<rparr>;
          marketData1 = (case ob_outcome u of
             YES \<Rightarrow> marketData\<lparr> yesPrices := prices \<rparr>
           | NO \<Rightarrow> marketData\<lparr> noPrices := prices \<rparr>);
          lu = max (md_lastUpdate marketData1) (ob_timestamp u);
          marketData2 = marketData1\<lparr> md_lastUpdate := lu, md_isStale := isStale now s lu \<rparr>
      in s\<lparr> markets := (markets s)(key \<mapsto> marketData2) \<rparr>)"

text \<open>The callbacks fire only when the updated market has both asks.\<close>

definition firesCallbacks ::
  "(string \<Rightarrow> real option) \<Rightarrow> int \<Rightarrow> OrderBookUpdate \<Rightarrow> MarketStore \<Rightarrow> bool" where
  "firesCallbacks pf now u s =
     (case markets (updateOrderBook pf now u s) (updateKey u) of
        None \<Rightarrow> False
      | Some m \<Rightarrow> ask (yesPrices m) \<noteq> None \<and> ask (noPrices m) \<noteq> None)"

text \<open>\<open>getMarket\<close> refreshes the staleness flag of the stored market on every read.\<close>

definition getMarket :: "int \<Rightarrow> string \<Rightarrow> MarketStore \<Rightarrow> MarketData option \<times> MarketStore" where
  "getMarket now marketId s =
     (case markets s marketId of
        None \<Rightarrow> (None, s)
      | Some market \<Rightarrow>
          (let market1 = market\<lparr> md_isStale := isStale now s (md_lastUpdate market) \<rparr>
           in (Some market1, s\<lparr> markets := (markets s)(marketId \<mapsto> market1) \<rparr>)))"

text \<open>A sequence of \<open>updateOrderBook\<close> calls, each with the clock reading of its call.\<close>

fun updateOrderBooks ::
  "(string \<Rightarrow> real option) \<Rightarrow> (int \<times> OrderBookUpdate) list \<Rightarrow> MarketStore \<Rightarrow> MarketStore" where
  "updateOrderBooks pf [] s = s"
| "updateOrderBooks pf ((now, u) # us) s = updateOrderBooks pf us (updateOrderBook pf now u s)"

text \<open>
  The values \<open>parseFloat\<close> gives on plain decimal literals: an optional sign, digits and
  an optional fraction, read to the end of the string. On a string of another shape it is
  \<open>None\<close>, where the built-in may still read a number (from a prefix, or with an
  exponent); it stands for the built-in at the concrete inputs used below only.
\<close>

definition digitVal :: "char \<Rightarrow> nat option" where
  "digitVal c = (let n = (of_char c :: nat) in if 48 \<le> n \<and> n \<le> 57 then Some (n - 48) else None)"

fun readDigits :: "string \<Rightarrow> nat \<Rightarrow> nat \<Rightarrow> (nat \<times> nat \<times> string)" where
  "readDigits [] acc n = (acc, n, [])"
| "readDigits (c # cs) acc n =
     (case digitVal c of
        None \<Rightarrow> (acc, n, c # cs)
      | Some d \<Rightarrow> readDigits cs (10 * acc + d) (Suc n))"

definition parseUnsigned :: "string \<Rightarrow> real option" where
  "parseUnsigned s =
     (case readDigits s 0 0 of (ip, n, rest) \<Rightarrow>
        (case rest of
           [] \<Rightarrow> if n = 0 then None else Some (real ip)
         | c # cs \<Rightarrow>
             if c = CHR ''.'' then
               (case readDigits cs 0 0 of (fp, k, rest2) \<Rightarrow>
                  if rest2 = [] \<and> n + k > 0 then Some (real ip + real fp / 10 ^ k) else None)
             else None))"

definition parseDecimal :: "string \<Rightarrow> real option" where
  "parseDecimal s =
     (case s of
        [] \<Rightarrow> None
      | c # cs \<Rightarrow>
          if c = CHR ''-'' then map_option uminus (parseUnsigned cs)
          else if c = CHR ''+'' then parseUnsigned cs
          else parseUnsigned s)"

section \<open>Arbitrage detector (arbitrage/arbitrageDetector.ts, arbitrage/types.ts)\<close>

record ArbitrageConfig =
  minProfitThreshold :: real
  feeBuffer :: real
  safetyMargin :: real
  maxPositionSize :: real
  scanInterval :: int
  enabled :: bool

record ArbitrageOpportunity =
  ao_marketId :: string
  ao_conditionId :: string
  yesAsk :: real
  noAsk :: real
  ao_totalCost :: real
  profitMargin :: real
  profitAfterFees :: real
  marketData :: MarketData
  ao_timestamp :: int

record ExecutionPlan =
  ep_marketId :: string
  ep_conditionId :: string
  yesSize :: real
  noSize :: real
  yesPrice :: real
  noPrice :: real
  ep_totalCost :: real
  expectedProfit :: real
  ep_timestamp :: int

definition detectArbitrage :: "ArbitrageConfig \<Rightarrow> int \<Rightarrow> MarketData \<Rightarrow> ArbitrageOpportunity option" where
  "detectArbitrage cfg now market =
     (case ask (yesPrices market) of
        None \<Rightarrow> None
      | Some yesAsk' \<Rightarrow>
     (case ask (noPrices market) of
        None \<Rightarrow> None
      | Some noAsk' \<Rightarrow>
          if yesAsk' \<le> 0 \<or> noAsk' \<le> 0 then None
          else
            (let totalCost = yesAsk' + noAsk';
                 requiredTotal = 1 - feeBuffer cfg - safetyMargin cfg
             in if totalCost \<ge> requiredTotal then None
                else
                  (let profitMargin' = 1 - totalCost;
                       profitAfterFees' = profitMargin' - feeBuffer cfg
                   in if profitAfterFees' < minProfitThreshold cfg then None
                      else Some \<lparr> ao_marketId = md_marketId market,
                                   ao_conditionId = md_conditionId market,
                                   yesAsk = yesAsk',
                                   noAsk = noAsk',
                                   ao_totalCost = totalCost,
                                   profitMargin = profitMargin',
                                   profitAfterFees = profitAfterFees',
                                   marketData = market,
                                   ao_timestamp = now \<rparr>))))"

definition createExecutionPlan ::
  "ArbitrageConfig \<Rightarrow> int \<Rightarrow> ArbitrageOpportunity \<Rightarrow> MarketStore \<Rightarrow> ExecutionPlan option \<times> MarketStore" where
  "createExecutionPlan cfg now opportunity s =
     (let totalSize = min (maxPositionSize cfg)
                          ((maxPositionSize cfg * profitAfterFees opportunity) / minProfitThreshold cfg);
          yesSize' = totalSize / 2;
          noSize' = totalSize / 2;
          (currentMarket, s1) = getMarket now (ao_marketId opportunity) s
      in case currentMarket of
           None \<Rightarrow> (None, s1)
         | Some cm \<Rightarrow>
        (case ask (yesPrices cm) of
           None \<Rightarrow> (None, s1)
         | Some currentYesAsk \<Rightarrow>
        (case ask (noPrices cm) of
           None \<Rightarrow> (None, s1)
         | Some currentNoAsk \<Rightarrow>
             (let currentTotalCost = currentYesAsk + currentNoAsk;
                  currentProfitAfterFees =
                    1 - currentTotalCost - feeBuffer cfg - safetyMargin cfg
              in if currentProfitAfterFees < minProfitThreshold cfg then (None, s1)
                 else (Some \<lparr> ep_marketId = ao_marketId opportunity,
                               ep_conditionId = ao_conditionId opportunity,
                               yesSize = yesSize',
                               noSize = noSize',
                               yesPrice = currentYesAsk,
                               noPrice = currentNoAsk,
                               ep_totalCost = yesSize' + noSize',
                               expectedProfit = (yesSize' + noSize') * currentProfitAfterFees,
                               ep_timestamp = now \<rparr>, s1)))))"

section \<open>Trading types (trading/types.ts)\<close>

text \<open>
  Identifiers made by \<open>uuidv4()\<close> are natural numbers drawn from a counter of the engine
  state, so that two draws never agree; the identifier fields hold such numbers.
\<close>

type_synonym TradeSide = Outcome

datatype TradeAction = BUY | SELL

datatype ExecutionMode = PaperMode | RealMode

datatype OrderStatus = Pending | Filled | Partial | Rejected | Cancelled

record TradeOrder =
  to_orderId :: nat
  to_marketId :: string
  to_conditionId :: string
  to_side :: TradeSide
  to_action :: TradeAction
  to_size :: real
  to_price :: "real option"
  to_mode :: ExecutionMode
  to_timestamp :: int

record Fill =
  fillId :: nat
  fl_orderId :: nat
  fl_price :: real
  fl_size :: real
  fl_timestamp :: int

record FillResult =
  fr_orderId :: nat
  fills :: "Fill list"
  status :: OrderStatus
  totalFilled :: real
  averagePrice :: real
  fr_timestamp :: int

record Position =
  positionId :: nat
  ps_marketId :: string
  ps_conditionId :: string
  yesTokens :: real
  noTokens :: real
  yesEntryPrice :: real
  noEntryPrice :: real
  yesCurrentPrice :: "real option"
  noCurrentPrice :: "real option"
  entryTimestamp :: int
  ps_lastUpdate :: int
  unrealizedPnL :: real
  totalEntryCost :: real

record TradeRecord =
  tradeId :: nat
  tr_orderId :: nat
  tr_marketId :: string
  tr_conditionId :: string
  tr_side :: TradeSide
  tr_action :: TradeAction
  tr_size :: real
  tr_price :: real
  tr_status :: OrderStatus
  tr_timestamp :: int
  tr_mode :: ExecutionMode

section \<open>Paper execution engine (trading/paperExecutionEngine.ts)\<close>

text \<open>
  \<open>positions\<close> is a JavaScript \<open>Map\<close> from market id to a \<open>Position\<close> object, and the
  methods mutate these objects through references they hold across calls. The map
  therefore holds addresses, and \<open>objects\<close> is the store of the objects at these
  addresses; \<open>nextAddr\<close> is the next unused address.
\<close>

record Engine =
  marketStore :: MarketStore
  positions :: "string \<rightharpoonup> nat"
  objects :: "nat \<Rightarrow> Position"
  nextAddr :: nat
  tradeHistory :: "TradeRecord list"
  startingCapital :: real
  currentBalance :: real
  realizedPnL :: real
  uuidCounter :: nat

definition uuidv4 :: "Engine \<Rightarrow> nat \<times> Engine" where
  "uuidv4 st = (uuidCounter st, st\<lparr> uuidCounter := Suc (uuidCounter st) \<rparr>)"

text \<open>\<open>this.marketStore.getMarket(id)\<close>, with the store kept in the engine state.\<close>

definition storeGetMarket :: "int \<Rightarrow> string \<Rightarrow> Engine \<Rightarrow> MarketData option \<times> Engine" where
  "storeGetMarket now marketId st =
     (case getMarket now marketId (marketStore st) of
        (market, ms) \<Rightarrow> (market, st\<lparr> marketStore := ms \<rparr>))"

definition sidePrices :: "TradeSide \<Rightarrow> MarketData \<Rightarrow> OutcomePrices" where
  "sidePrices sd market = (case sd of YES \<Rightarrow> yesPrices market | NO \<Rightarrow> noPrices market)"

definition sideTokens :: "TradeSide \<Rightarrow> Position \<Rightarrow> real" where
  "sideTokens sd p = (case sd of YES \<Rightarrow> yesTokens p | NO \<Rightarrow> noTokens p)"

definition sideEntryPrice :: "TradeSide \<Rightarrow> Position \<Rightarrow> real" where
  "sideEntryPrice sd p = (case sd of YES \<Rightarrow> yesEntryPrice p | NO \<Rightarrow> noEntryPrice p)"

text \<open>\<open>this.tradeHistory.slice(-1000)\<close> when the history is longer than 1000.\<close>

definition trimHistory :: "TradeRecord list \<Rightarrow> TradeRecord list" where
  "trimHistory h = (if length h > 1000 then drop (length h - 1000) h else h)"

definition rejectedResult :: "int \<Rightarrow> TradeOrder \<Rightarrow> FillResult" where
  "rejectedResult now order =
     \<lparr> fr_orderId = to_orderId order, fills = [], status = Rejected,
       totalFilled = 0, averagePrice = 0, fr_timestamp = now \<rparr>"

text \<open>\<open>updatePositionPnL(position)\<close>: the argument is the address of the object.\<close>

definition updatePositionPnL :: "int \<Rightarrow> nat \<Rightarrow> Engine \<Rightarrow> Engine" where
  "updatePositionPnL now addr st =
     (let position = objects st addr in
      case storeGetMarket now (ps_marketId position) st of
        (None, st1) \<Rightarrow>
          st1\<lparr> objects := (objects st1)(addr :=
                 position\<lparr> yesCurrentPrice := None, noCurrentPrice := None,
                           unrealizedPnL := 0 \<rparr>) \<rparr>
      | (Some market, st1) \<Rightarrow>
          (let ycp = firstTruthy (ask (yesPrices market)) (bid (yesPrices market));
               ncp = firstTruthy (ask (noPrices market)) (bid (noPrices market));
               yesValue = yesTokens position * orElse ycp 0;
               noValue = noTokens position * orElse ncp 0;
               currentValue = yesValue + noValue
           in st1\<lparr> objects := (objects st1)(addr :=
                 position\<lparr> yesCurrentPrice := ycp, noCurrentPrice := ncp,
                           unrealizedPnL := currentValue - totalEntryCost position \<rparr>) \<rparr>))"

definition updatePosition :: "int \<Rightarrow> TradeOrder \<Rightarrow> real \<Rightarrow> real \<Rightarrow> Engine \<Rightarrow> Engine" where
  "updatePosition now order price tokens st =
     (let (addr, st1) =
            (case positions st (to_marketId order) of
               Some a \<Rightarrow> (a, st)
             | None \<Rightarrow>
                 (let (pid, st0) = uuidv4 st;
                      a = nextAddr st0;
                      fresh = \<lparr> positionId = pid,
                                ps_marketId = to_marketId order,
                                ps_conditionId = to_conditionId order,
                                yesTokens = 0, noTokens = 0,
                                yesEntryPrice = 0, noEntryPrice = 0,
                                yesCurrentPrice = None, noCurrentPrice = None,
                                entryTimestamp = now, ps_lastUpdate = now,
                                unrealizedPnL = 0, totalEntryCost = 0 \<rparr>
                  in (a, st0\<lparr> objects := (objects st0)(a := fresh),
                              nextAddr := Suc a,
                              positions := (positions st0)(to_marketId order \<mapsto> a) \<rparr>)));
          position = objects st1 addr;
          position1 =
            (case to_side order of
               YES \<Rightarrow>
                 (case to_action order of
                    BUY \<Rightarrow>
                      (let totalCost = yesTokens position * yesEntryPrice position + to_size order;
                           t = yesTokens position + tokens
                       in position\<lparr> yesTokens := t, yesEntryPrice := totalCost / t \<rparr>)
                  | SELL \<Rightarrow>
                      (let t = yesTokens position - tokens
                       in if t \<le> 0 then position\<lparr> yesTokens := 0, yesEntryPrice := 0 \<rparr>
                          else position\<lparr> yesTokens := t \<rparr>))
             | NO \<Rightarrow>
                 (case to_action order of
                    BUY \<Rightarrow>
                      (let totalCost = noTokens position * noEntryPrice position + to_size order;
                           t = noTokens position + tokens
                       in position\<lparr> noTokens := t, noEntryPrice := totalCost / t \<rparr>)
                  | SELL \<Rightarrow>
                      (let t = noTokens position - tokens
                       in if t \<le> 0 then position\<lparr> noTokens := 0, noEntryPrice := 0 \<rparr>
                          else position\<lparr> noTokens := t \<rparr>)));
          position2 = position1\<lparr> totalEntryCost :=
                          yesTokens position1 * yesEntryPrice position1
                        + noTokens position1 * noEntryPrice position1,
                        ps_lastUpdate := now \<rparr>
      in updatePositionPnL now addr (st1\<lparr> objects := (objects st1)(addr := position2) \<rparr>))"

text \<open>
  The fill price of \<open>executeTrade\<close>: \<open>order.price\<close> when it is truthy (a price of \<open>0\<close>
  counts as no price), else the best ask (BUY) or best bid (SELL) of the store, \<open>0\<close>
  when that quote is \<open>null\<close>. \<open>None\<close> is the early rejection for a market order on a
  market without data.
\<close>

definition resolveFillPrice :: "int \<Rightarrow> TradeOrder \<Rightarrow> Engine \<Rightarrow> real option \<times> Engine" where
  "resolveFillPrice now order st =
     (if truthy (to_price order) then (to_price order, st)
      else
        (case storeGetMarket now (to_marketId order) st of
           (None, st1) \<Rightarrow> (None, st1)
         | (Some market, st1) \<Rightarrow>
             (let prices = sidePrices (to_side order) market
              in (case to_action order of
                    BUY \<Rightarrow> (Some (orElse (ask prices) 0), st1)
                  | SELL \<Rightarrow> (Some (orElse (bid prices) 0), st1)))))"

text \<open>
  \<open>executeTrade\<close> throws for an order that is not a paper order (\<open>Inl\<close>); every other
  outcome, the rejections included, is a returned \<open>FillResult\<close>.
\<close>

definition executeTrade :: "int \<Rightarrow> TradeOrder \<Rightarrow> Engine \<Rightarrow> string + (FillResult \<times> Engine)" where
  "executeTrade now order st =
     (if to_mode order \<noteq> PaperMode
      then Inl ''Paper execution engine only handles paper trades''
      else
        (case resolveFillPrice now order st of
           (None, st1) \<Rightarrow> Inr (rejectedResult now order, st1)
         | (Some fillPrice, st1) \<Rightarrow>
             if fillPrice = 0 \<or> fillPrice \<le> 0 \<or> fillPrice > 1
             then Inr (rejectedResult now order, st1)
             else
               (let tokens = to_size order / fillPrice;
                    totalCost = to_size order
                in if to_action order = BUY \<and> currentBalance st1 < totalCost
                   then Inr (rejectedResult now order, st1)
                   else
                     (let (fid, st2) = uuidv4 st1;
                          fill = \<lparr> fillId = fid, fl_orderId = to_orderId order,
                                   fl_price = fillPrice, fl_size = to_size order,
                                   fl_timestamp = now \<rparr>;
                          st3 = (if to_action order = BUY
                                 then st2\<lparr> currentBalance := currentBalance st2 - totalCost \<rparr>
                                 else st2\<lparr> currentBalance := currentBalance st2 + totalCost \<rparr>);
                          st4 = updatePosition now order fillPrice tokens st3;
                          (tid, st5) = uuidv4 st4;
                          trade = \<lparr> tradeId = tid, tr_orderId = to_orderId order,
                                    tr_marketId = to_marketId order,
                                    tr_conditionId = to_conditionId order,
                                    tr_side = to_side order, tr_action = to_action order,
                                    tr_size = to_size order, tr_price = fillPrice,
                                    tr_status = Filled, tr_timestamp = now,
                                    tr_mode = PaperMode \<rparr>;
                          st6 = st5\<lparr> tradeHistory := trimHistory (tradeHistory st5 @ [trade]) \<rparr>
                      in Inr (\<lparr> fr_orderId = to_orderId order, fills = [fill],
                                 status = Filled, totalFilled = to_size order,
                                 averagePrice = fillPrice, fr_timestamp = now \<rparr>, st6)))))"

text \<open>
  One leg of \<open>closePosition\<close>: the block for YES and the block for NO differ in the side
  only. \<open>addr\<close> is the reference \<open>position\<close> that \<open>closePosition\<close> read from the map
  before the leg; the realised profit is computed from that object after \<open>executeTrade\<close>
  has returned.
\<close>

definition closeLeg ::
  "int \<Rightarrow> string \<Rightarrow> nat \<Rightarrow> TradeSide \<Rightarrow> Engine \<Rightarrow> string + (FillResult list \<times> Engine)" where
  "closeLeg now marketId addr sd st =
     (if sideTokens sd (objects st addr) > 0 then
        (case storeGetMarket now marketId st of (market, st1) \<Rightarrow>
           (let position = objects st1 addr;
                fillPrice = orElse (case market of None \<Rightarrow> None
                                                | Some m \<Rightarrow> bid (sidePrices sd m))
                                   (sideEntryPrice sd position);
                (oid, st2) = uuidv4 st1;
                order = \<lparr> to_orderId = oid, to_marketId = marketId,
                          to_conditionId = ps_conditionId position,
                          to_side = sd, to_action = SELL,
                          to_size = sideTokens sd position * fillPrice,
                          to_price = None, to_mode = PaperMode, to_timestamp = now \<rparr>
            in case executeTrade now order st2 of
                 Inl e \<Rightarrow> Inl e
               | Inr (result, st3) \<Rightarrow>
                   (let positionAfter = objects st3 addr;
                        realized = sideTokens sd positionAfter
                                     * (fillPrice - sideEntryPrice sd positionAfter)
                    in Inr ([result], st3\<lparr> realizedPnL := realizedPnL st3 + realized \<rparr>))))
      else Inr ([], st))"

definition closePosition ::
  "int \<Rightarrow> string \<Rightarrow> Engine \<Rightarrow> string + (FillResult list \<times> Engine)" where
  "closePosition now marketId st =
     (case positions st marketId of
        None \<Rightarrow> Inr ([], st)
      | Some addr \<Rightarrow>
          (case closeLeg now marketId addr YES st of
             Inl e \<Rightarrow> Inl e
           | Inr (r1, st1) \<Rightarrow>
               (case closeLeg now marketId addr NO st1 of
                  Inl e \<Rightarrow> Inl e
                | Inr (r2, st2) \<Rightarrow>
                    Inr (r1 @ r2, st2\<lparr> positions := (positions st2)(marketId := None) \<rparr>))))"

text \<open>\<open>winningOutcome\<close> is \<open>0\<close> when YES won and \<open>1\<close> when NO won.\<close>

definition redeemPosition :: "int \<Rightarrow> string \<Rightarrow> nat \<Rightarrow> Engine \<Rightarrow> Engine" where
  "redeemPosition now marketId winningOutcome st =
     (case positions st marketId of
        None \<Rightarrow> st
      | Some addr \<Rightarrow>
          (let position = objects st addr;
               yesTokens' = yesTokens position;
               noTokens' = noTokens position;
               settlementPrice = 1;
               settlementProceeds =
                 (if winningOutcome = 0 then yesTokens' * settlementPrice
                  else noTokens' * settlementPrice);
               realized =
                 (if winningOutcome = 0
                  then yesTokens' * (settlementPrice - yesEntryPrice position)
                         + noTokens' * (0 - noEntryPrice position)
                  else noTokens' * (settlementPrice - noEntryPrice position)
                         + yesTokens' * (0 - yesEntryPrice position));
               st1 = st\<lparr> currentBalance := currentBalance st + settlementProceeds,
                         realizedPnL := realizedPnL st + realized \<rparr>;
               (tid, st2) = uuidv4 st1;
               (oid, st3) = uuidv4 st2;
               redemptionRecord =
                 \<lparr> tradeId = tid, tr_orderId = oid, tr_marketId = marketId,
                   tr_conditionId = ps_conditionId position,
                   tr_side = (if winningOutcome = 0 then YES else NO),
                   tr_action = SELL, tr_size = settlementProceeds,
                   tr_price = settlementPrice, tr_status = Filled,
                   tr_timestamp = now, tr_mode = PaperMode \<rparr>
           in st3\<lparr> tradeHistory := trimHistory (tradeHistory st3 @ [redemptionRecord]),
                    positions := (positions st3)(marketId := None) \<rparr>))"

section \<open>Copy trading service (copytrading/copyTradingService.ts, copytrading/types.ts)\<close>

datatype ActivityType = TRADE | SPLIT | MERGE | REDEEM | REWARD | CONVERSION

record PolymarketTrade =
  proxyWallet :: string
  pt_side :: TradeAction
  asset :: string
  pt_conditionId :: string
  pt_size :: real
  pt_price :: real
  pt_timestamp :: int
  pt_outcome :: "string option"
  transactionHash :: string
  pt_type :: "ActivityType option"

text \<open>
  The numeric fields of the configuration that the sizing reads are optional. The window
  length is a count and is a natural number here.
\<close>

record CopyTradingConfig =
  pollIntervalMs :: int
  ct_enabled :: bool
  minTradeSize :: "real option"
  maxTradeSize :: "real option"
  recentTradesWindow :: "nat option"
  minVolumeForScaling :: "real option"

text \<open>
  A JavaScript \<open>Map<string, number>\<close> iterates in insertion order: it is the list of its
  entries, oldest first, with one entry for each key. \<open>set\<close> overwrites the value of a
  key that is present, in place, and appends a new key at the end.
\<close>

type_synonym TradeWindow = "(string \<times> real) list"

fun mapSet :: "TradeWindow \<Rightarrow> string \<Rightarrow> real \<Rightarrow> TradeWindow" where
  "mapSet [] k v = [(k, v)]"
| "mapSet ((k', v') # m) k v = (if k' = k then (k, v) # m else (k', v') # mapSet m k v)"

definition mapDelete :: "TradeWindow \<Rightarrow> string \<Rightarrow> TradeWindow" where
  "mapDelete m k = filter (\<lambda>e. fst e \<noteq> k) m"

definition mapGet :: "TradeWindow \<Rightarrow> string \<Rightarrow> real option" where
  "mapGet m k = map_of m k"

text \<open>\<open>this.config.recentTradesWindow || 10\<close> and the other defaults of the configuration.\<close>

definition windowSize :: "CopyTradingConfig \<Rightarrow> nat" where
  "windowSize cfg = (case recentTradesWindow cfg of None \<Rightarrow> 10 | Some w \<Rightarrow> if w \<noteq> 0 then w else 10)"

definition effMinTradeSize :: "CopyTradingConfig \<Rightarrow> real" where
  "effMinTradeSize cfg = orElse (minTradeSize cfg) 10"

definition effMaxTradeSize :: "CopyTradingConfig \<Rightarrow> real" where
  "effMaxTradeSize cfg = orElse (maxTradeSize cfg) 1000"

definition effMinVolumeForScaling :: "CopyTradingConfig \<Rightarrow> real" where
  "effMinVolumeForScaling cfg = orElse (minVolumeForScaling cfg) 1000"

text \<open>\<open>activity.type === 'TRADE' || !activity.type\<close>\<close>

definition countsAsTrade :: "PolymarketTrade \<Rightarrow> bool" where
  "countsAsTrade a = (pt_type a = Some TRADE \<or> pt_type a = None)"

text \<open>
  The body of the loop of \<open>fetchUserTrades\<close> that feeds the window of one user: the
  entry is set, and when the window is then longer than its length the first key is
  deleted, provided that key is truthy (not the empty string).
\<close>

definition recordActivity :: "nat \<Rightarrow> TradeWindow \<Rightarrow> PolymarketTrade \<Rightarrow> TradeWindow" where
  "recordActivity w hist activity =
     (if countsAsTrade activity then
        (let th1 = mapSet hist (transactionHash activity) (pt_size activity)
         in if length th1 > w then
              (case th1 of
                 [] \<Rightarrow> th1
               | (firstHash, _) # _ \<Rightarrow> if firstHash \<noteq> [] then mapDelete th1 firstHash else th1)
            else th1)
      else hist)"

fun recordActivities :: "nat \<Rightarrow> TradeWindow \<Rightarrow> PolymarketTrade list \<Rightarrow> TradeWindow" where
  "recordActivities w hist [] = hist"
| "recordActivities w hist (a # as) = recordActivities w (recordActivity w hist a) as"

text \<open>\<open>String.prototype.toLowerCase\<close> on ASCII strings.\<close>

definition lowerChar :: "char \<Rightarrow> char" where
  "lowerChar c = (let n = (of_char c :: nat) in if 65 \<le> n \<and> n \<le> 90 then char_of (n + 32) else c)"

definition toLowerCase :: "string \<Rightarrow> string" where
  "toLowerCase s = map lowerChar s"

text \<open>
  The window part of \<open>fetchUserTrades\<close> for one user and the activities of one response:
  the window of the user is fetched or created, fed, and is the window stored for the user.
\<close>

definition updateUserTradeHistory ::
  "CopyTradingConfig \<Rightarrow> string \<Rightarrow> PolymarketTrade list \<Rightarrow> (string \<rightharpoonup> TradeWindow) \<Rightarrow> (string \<rightharpoonup> TradeWindow)" where
  "updateUserTradeHistory cfg address activities userHist =
     (let userAddress = toLowerCase address;
          hist = (case userHist userAddress of None \<Rightarrow> [] | Some th \<Rightarrow> th)
      in userHist(userAddress \<mapsto> recordActivities (windowSize cfg) hist activities))"

text \<open>The volume of the window without the entry of the trade being copied.\<close>

fun recentVolume :: "TradeWindow \<Rightarrow> string \<Rightarrow> real" where
  "recentVolume [] tradeHash = 0"
| "recentVolume ((h, sz) # m) tradeHash =
     (if h \<noteq> tradeHash then sz + recentVolume m tradeHash else recentVolume m tradeHash)"

definition calculateProportionalSize ::
  "CopyTradingConfig \<Rightarrow> (string \<rightharpoonup> TradeWindow) \<Rightarrow> real \<Rightarrow> string \<Rightarrow> string \<Rightarrow> real" where
  "calculateProportionalSize cfg userHist tradeSize tradeHash userAddress =
     (let hist = userHist (toLowerCase userAddress);
          minVolumeForScaling' = orElse (minVolumeForScaling cfg) 1000;
          maxTradeSize' = orElse (maxTradeSize cfg) 1000
      in case hist of
           None \<Rightarrow> max (orElse (minTradeSize cfg) 10) (maxTradeSize' * 0.1)
         | Some th \<Rightarrow>
             if length th < 2 then max (orElse (minTradeSize cfg) 10) (maxTradeSize' * 0.1)
             else
               (let rv = recentVolume th tradeHash
                in if rv < minVolumeForScaling'
                   then max (orElse (minTradeSize cfg) 10) (maxTradeSize' * 0.05)
                   else
                     (let tradePercentageOfRecentVolume = (tradeSize / rv) * 100;
                          proportionalSize = (maxTradeSize' * tradePercentageOfRecentVolume) / 100;
                          finalSize = max (orElse (minTradeSize cfg) 10) proportionalSize
                      in min finalSize maxTradeSize')))"

section \<open>Observations and closed forms used in the statements\<close>

text \<open>
  What \<open>getPosition(marketId)\<close> shows for one side: the tokens held and their entry
  price, \<open>0\<close> when the engine has no position for the market.
\<close>

definition heldTokens :: "TradeSide \<Rightarrow> string \<Rightarrow> Engine \<Rightarrow> real" where
  "heldTokens sd marketId st =
     (case positions st marketId of None \<Rightarrow> 0 | Some a \<Rightarrow> sideTokens sd (objects st a))"

definition heldEntryPrice :: "TradeSide \<Rightarrow> string \<Rightarrow> Engine \<Rightarrow> real" where
  "heldEntryPrice sd marketId st =
     (case positions st marketId of None \<Rightarrow> 0 | Some a \<Rightarrow> sideEntryPrice sd (objects st a))"

text \<open>The three rejections of \<open>executeTrade\<close>, read off its three early returns.\<close>

definition rejects :: "int \<Rightarrow> TradeOrder \<Rightarrow> Engine \<Rightarrow> bool" where
  "rejects now order st =
     (case fst (resolveFillPrice now order st) of
        None \<Rightarrow> True
      | Some p \<Rightarrow> p \<le> 0 \<or> 1 < p \<or> (to_action order = BUY \<and> currentBalance st < to_size order))"

text \<open>
  The state that \<open>executeTrade\<close> leaves after a fill at price \<open>p\<close>, as one expression;
  lemma \<open>executeTrade_filled\<close> proves that this is what the function returns.
\<close>

definition filledState :: "int \<Rightarrow> TradeOrder \<Rightarrow> real \<Rightarrow> Engine \<Rightarrow> Engine" where
  "filledState now order p st =
     (let st1 = snd (resolveFillPrice now order st);
          st3 = st1\<lparr> uuidCounter := Suc (uuidCounter st1),
                     currentBalance := (if to_action order = BUY
                                        then currentBalance st1 - to_size order
                                        else currentBalance st1 + to_size order) \<rparr>;
          st4 = updatePosition now order p (to_size order / p) st3
      in st4\<lparr> uuidCounter := Suc (uuidCounter st4),
              tradeHistory := trimHistory (tradeHistory st4 @
                [\<lparr> tradeId = uuidCounter st4, tr_orderId = to_orderId order,
                   tr_marketId = to_marketId order,
                   tr_conditionId = to_conditionId order,
                   tr_side = to_side order, tr_action = to_action order,
                   tr_size = to_size order, tr_price = p,
                   tr_status = Filled, tr_timestamp = now,
                   tr_mode = PaperMode \<rparr>]) \<rparr>)"

text \<open>
  A stored quote is \<open>null\<close> or the number parsed from the first level of the given
  side of one of the updates \<open>us\<close>; \<open>quotesFrom\<close> says so of the four quotes of a market.
\<close>

definition quoteFrom ::
  "(string \<Rightarrow> real option) \<Rightarrow> (OrderBookUpdate \<Rightarrow> OrderBookLevel list) \<Rightarrow>
   (int \<times> OrderBookUpdate) list \<Rightarrow> real option \<Rightarrow> bool" where
  "quoteFrom pf sideOf us q =
     (q = None \<or> (\<exists>(now, u) \<in> set us. \<exists>lvl rest. sideOf u = lvl # rest \<and> q = pf (lvl_price lvl)))"

definition quotesFrom ::
  "(string \<Rightarrow> real option) \<Rightarrow> (int \<times> OrderBookUpdate) list \<Rightarrow> MarketData \<Rightarrow> bool" where
  "quotesFrom pf us m =
     (quoteFrom pf ob_bids us (bid (yesPrices m)) \<and> quoteFrom pf ob_asks us (ask (yesPrices m))
    \<and> quoteFrom pf ob_bids us (bid (noPrices m)) \<and> quoteFrom pf ob_asks us (ask (noPrices m)))"

text \<open>
  The invariant of a trade window of length \<open>w\<close>: one entry for each key, no empty key,
  at most \<open>w\<close> entries.
\<close>

definition windowOk :: "nat \<Rightarrow> TradeWindow \<Rightarrow> bool" where
  "windowOk w m = (distinct (map fst m) \<and> [] \<notin> fst ` set m \<and> length m \<le> w)"

section \<open>Concrete inputs\<close>

text \<open>
  A market \<open>m1\<close> with given quotes, a store that holds it, the configuration that the
  detector builds from a profit threshold of one percent, and an engine with a balance of
  1000 and no position or with one position on \<open>m1\<close>.
\<close>

definition exMarket :: "real option \<Rightarrow> real option \<Rightarrow> real option \<Rightarrow> real option \<Rightarrow> MarketData" where
  "exMarket yb ya nb na =
     \<lparr> md_marketId = ''m1'', md_conditionId = ''c1'',
       yesPrices = \<lparr> bid = yb, ask = ya, op_lastUpdate = 0 \<rparr>,
       noPrices = \<lparr> bid = nb, ask = na, op_lastUpdate = 0 \<rparr>,
       md_lastUpdate = 0, md_isStale = False \<rparr>"

definition exStore :: "MarketData \<Rightarrow> MarketStore" where
  "exStore m = \<lparr> markets = [''m1'' \<mapsto> m], staleThresholdMs = 30000 \<rparr>"

definition exCfg :: ArbitrageConfig where
  "exCfg = \<lparr> minProfitThreshold = 0.01, feeBuffer = 0.02, safetyMargin = 0.005,
             maxPositionSize = 100, scanInterval = 1000, enabled = True \<rparr>"

definition exOpportunity :: "real \<Rightarrow> real \<Rightarrow> MarketData \<Rightarrow> ArbitrageOpportunity" where
  "exOpportunity y n m =
     \<lparr> ao_marketId = ''m1'', ao_conditionId = ''c1'', yesAsk = y, noAsk = n,
       ao_totalCost = y + n, profitMargin = 1 - (y + n),
       profitAfterFees = 1 - (y + n) - 0.02, marketData = m, ao_timestamp = 0 \<rparr>"

definition exBlank :: Position where
  "exBlank = \<lparr> positionId = 0, ps_marketId = [], ps_conditionId = [],
               yesTokens = 0, noTokens = 0, yesEntryPrice = 0, noEntryPrice = 0,
               yesCurrentPrice = None, noCurrentPrice = None,
               entryTimestamp = 0, ps_lastUpdate = 0,
               unrealizedPnL = 0, totalEntryCost = 0 \<rparr>"

definition exEngine :: "MarketStore \<Rightarrow> Engine" where
  "exEngine ms =
     \<lparr> marketStore = ms, positions = Map.empty, objects = (\<lambda>a. exBlank), nextAddr = 0,
       tradeHistory = [], startingCapital = 1000, currentBalance = 1000,
       realizedPnL = 0, uuidCounter = 0 \<rparr>"

definition exHolding :: "real \<Rightarrow> real \<Rightarrow> real \<Rightarrow> real \<Rightarrow> MarketStore \<Rightarrow> Engine" where
  "exHolding yt ye nt ne ms =
     \<lparr> marketStore = ms, positions = [''m1'' \<mapsto> 0],
       objects = (\<lambda>a. exBlank)(0 := exBlank\<lparr> ps_marketId := ''m1'', ps_conditionId := ''c1'',
                    yesTokens := yt, yesEntryPrice := ye, noTokens := nt, noEntryPrice := ne,
                    totalEntryCost := yt * ye + nt * ne \<rparr>),
       nextAddr = 1, tradeHistory = [], startingCapital = 1000, currentBalance = 1000,
       realizedPnL = 0, uuidCounter = 1 \<rparr>"

definition exOrder :: "TradeSide \<Rightarrow> TradeAction \<Rightarrow> real \<Rightarrow> real option \<Rightarrow> TradeOrder" where
  "exOrder sd act sz pr =
     \<lparr> to_orderId = 7, to_marketId = ''m1'', to_conditionId = ''c1'', to_side = sd,
       to_action = act, to_size = sz, to_price = pr, to_mode = PaperMode, to_timestamp = 0 \<rparr>"

definition exLevel :: "string \<Rightarrow> OrderBookLevel" where
  "exLevel p = \<lparr> lvl_price = p, lvl_size = ''100'' \<rparr>"

definition exUpdate :: "Outcome \<Rightarrow> OrderBookLevel list \<Rightarrow> OrderBookLevel list \<Rightarrow> OrderBookUpdate" where
  "exUpdate oc bs as =
     \<lparr> ob_marketId = ''m1'', ob_conditionId = ''c1'', ob_assetId = ''a1'', ob_outcome = oc,
       ob_bids = bs, ob_asks = as, ob_timestamp = 0 \<rparr>"

definition exActivity :: "string \<Rightarrow> real \<Rightarrow> ActivityType option \<Rightarrow> PolymarketTrade" where
  "exActivity h sz ty =
     \<lparr> proxyWallet = ''0xabc'', pt_side = BUY, asset = ''a1'', pt_conditionId = ''c1'',
       pt_size = sz, pt_price = 1/2, pt_timestamp = 0, pt_outcome = Some ''Yes'',
       transactionHash = h, pt_type = ty \<rparr>"

definition exCopyCfg :: "nat option \<Rightarrow> CopyTradingConfig" where
  "exCopyCfg w =
     \<lparr> pollIntervalMs = 5000, ct_enabled = True, minTradeSize = Some 10,
       maxTradeSize = Some 1000, recentTradesWindow = w, minVolumeForScaling = Some 1000 \<rparr>"

section \<open>Arbitrage detection\<close>

text \<open>
  C5. \<open>detectArbitrage\<close> returns an opportunity exactly when both asks are present and
  positive, their sum is below \<open>1 - feeBuffer - safetyMargin\<close>, and
  \<open>(1 - sum) - feeBuffer\<close> is at least \<open>minProfitThreshold\<close>. The opportunity carries
  the two asks, \<open>totalCost\<close> their sum, \<open>profitMargin = 1 - totalCost\<close> and
  \<open>profitAfterFees = profitMargin - feeBuffer\<close>. With asks 0.45 and 0.50, fee buffer
  0.02, safety margin 0.005 and threshold 0.01 an opportunity is found, with profit
  margin 0.05 and profit after fees 0.03.
\<close>

theorem detectArbitrage_opportunity:
  "((detectArbitrage cfg now m \<noteq> None) =
      (\<exists>y n. ask (yesPrices m) = Some y \<and> ask (noPrices m) = Some n \<and> 0 < y \<and> 0 < n
         \<and> y + n < 1 - feeBuffer cfg - safetyMargin cfg
         \<and> minProfitThreshold cfg \<le> (1 - (y + n)) - feeBuffer cfg))
   \<and> (\<forall>opp. detectArbitrage cfg now m = Some opp \<longrightarrow>
         ask (yesPrices m) = Some (yesAsk opp) \<and> ask (noPrices m) = Some (noAsk opp)
         \<and> ao_totalCost opp = yesAsk opp + noAsk opp
         \<and> profitMargin opp = 1 - ao_totalCost opp
         \<and> profitAfterFees opp = profitMargin opp - feeBuffer cfg)
   \<and> (ask (yesPrices m) = Some 0.45 \<and> ask (noPrices m) = Some 0.50
         \<and> feeBuffer cfg = 0.02 \<and> safetyMargin cfg = 0.005 \<and> minProfitThreshold cfg = 0.01 \<longrightarrow>
         (\<exists>opp. detectArbitrage cfg now m = Some opp
            \<and> profitMargin opp = 0.05 \<and> profitAfterFees opp = 0.03))"
proof (intro conjI allI)
  show "(detectArbitrage cfg now m \<noteq> None) =
     (\<exists>y n. ask (yesPrices m) = Some y \<and> ask (noPrices m) = Some n \<and> 0 < y \<and> 0 < n
        \<and> y + n < 1 - feeBuffer cfg - safetyMargin cfg
        \<and> minProfitThreshold cfg \<le> (1 - (y + n)) - feeBuffer cfg)"
    by (auto simp: detectArbitrage_def Let_def split: option.splits)
next
  fix opp
  show "detectArbitrage cfg now m = Some opp \<longrightarrow>
     ask (yesPrices m) = Some (yesAsk opp) \<and> ask (noPrices m) = Some (noAsk opp)
     \<and> ao_totalCost opp = yesAsk opp + noAsk opp
     \<and> profitMargin opp = 1 - ao_totalCost opp
     \<and> profitAfterFees opp = profitMargin opp - feeBuffer cfg"
    by (auto simp: detectArbitrage_def Let_def split: option.splits if_splits)
next
  show "ask (yesPrices m) = Some 0.45 \<and> ask (noPrices m) = Some 0.50
     \<and> feeBuffer cfg = 0.02 \<and> safetyMargin cfg = 0.005 \<and> minProfitThreshold cfg = 0.01 \<longrightarrow>
     (\<exists>opp. detectArbitrage cfg now m = Some opp
        \<and> profitMargin opp = 0.05 \<and> profitAfterFees opp = 0.03)"
    by (simp add: detectArbitrage_def Let_def)
qed

theorem detectArbitrage_opportunity_witness:
  "detectArbitrage exCfg 0 (exMarket None (Some 0.45) None (Some 0.50))
     = Some (exOpportunity 0.45 0.50 (exMarket None (Some 0.45) None (Some 0.50)))
   \<and> profitMargin (exOpportunity 0.45 0.50 (exMarket None (Some 0.45) None (Some 0.50))) = 0.05
   \<and> profitAfterFees (exOpportunity 0.45 0.50 (exMarket None (Some 0.45) None (Some 0.50))) = 0.03"
proof -
  have h: "detectArbitrage exCfg 0 (exMarket None (Some 0.45) None (Some 0.50))
     = Some (exOpportunity 0.45 0.50 (exMarket None (Some 0.45) None (Some 0.50)))"
    by (simp add: detectArbitrage_def exCfg_def exMarket_def exOpportunity_def Let_def)
  show ?thesis
    using h detectArbitrage_opportunity
      [of exCfg 0 "exMarket None (Some 0.45) None (Some 0.50)"]
    by (simp add: exCfg_def exOpportunity_def)
qed

section \<open>Execution plans\<close>

text \<open>
  C1, as stated, fails: the re-validation of \<open>createExecutionPlan\<close> subtracts the safety
  margin as well as the fee buffer. The market \<open>m1\<close> quotes asks 0.45 and 0.517; the
  detector reports the opportunity (profit after fees 0.013, threshold 0.01), the store
  still holds these quotes, and yet no plan is made.
\<close>

theorem createExecutionPlan_counterexample:
  "detectArbitrage exCfg 0 (exMarket None (Some 0.45) None (Some 0.517))
     = Some (exOpportunity 0.45 0.517 (exMarket None (Some 0.45) None (Some 0.517)))
   \<and> markets (exStore (exMarket None (Some 0.45) None (Some 0.517))) ''m1''
     = Some (exMarket None (Some 0.45) None (Some 0.517))
   \<and> minProfitThreshold exCfg \<le> 1 - (0.45 + 0.517) - feeBuffer exCfg
   \<and> fst (createExecutionPlan exCfg 0
            (exOpportunity 0.45 0.517 (exMarket None (Some 0.45) None (Some 0.517)))
            (exStore (exMarket None (Some 0.45) None (Some 0.517)))) = None"
  by (simp add: detectArbitrage_def createExecutionPlan_def getMarket_def exCfg_def
        exMarket_def exOpportunity_def exStore_def Let_def)

text \<open>
  C1, amended. For an opportunity whose market is in the store with both asks present,
  \<open>createExecutionPlan\<close> returns a plan exactly when
  \<open>1 - (yesAsk + noAsk) - feeBuffer - safetyMargin\<close>, computed from the current asks,
  is at least \<open>minProfitThreshold\<close>. The plan has
  \<open>totalSize = min maxPositionSize (maxPositionSize * profitAfterFees / minProfitThreshold)\<close>
  with the profit of the opportunity, \<open>yesSize = noSize = totalSize / 2\<close>, and the
  current asks as its prices. (The threshold is taken to be non-zero, for the division.)
\<close>

theorem createExecutionPlan_revalidates:
  assumes "markets s (ao_marketId opp) = Some m"
      and "ask (yesPrices m) = Some y" and "ask (noPrices m) = Some n"
      and "minProfitThreshold cfg \<noteq> 0"
  shows "((fst (createExecutionPlan cfg now opp s) \<noteq> None) =
            (minProfitThreshold cfg \<le> 1 - (y + n) - feeBuffer cfg - safetyMargin cfg))
       \<and> (\<forall>plan. fst (createExecutionPlan cfg now opp s) = Some plan \<longrightarrow>
             ep_totalCost plan = min (maxPositionSize cfg)
                 (maxPositionSize cfg * profitAfterFees opp / minProfitThreshold cfg)
           \<and> yesSize plan = ep_totalCost plan / 2 \<and> noSize plan = ep_totalCost plan / 2
           \<and> yesPrice plan = y \<and> noPrice plan = n)"
  using assms
  by (auto simp: createExecutionPlan_def getMarket_def Let_def
        split: option.splits if_splits prod.splits)

theorem createExecutionPlan_revalidates_witness:
  "markets (exStore (exMarket None (Some 0.45) None (Some 0.50))) ''m1''
     = Some (exMarket None (Some 0.45) None (Some 0.50))
   \<and> minProfitThreshold exCfg \<noteq> 0
   \<and> fst (createExecutionPlan exCfg 0
            (exOpportunity 0.45 0.50 (exMarket None (Some 0.45) None (Some 0.50)))
            (exStore (exMarket None (Some 0.45) None (Some 0.50)))) \<noteq> None
   \<and> ep_totalCost (the (fst (createExecutionPlan exCfg 0
            (exOpportunity 0.45 0.50 (exMarket None (Some 0.45) None (Some 0.50)))
            (exStore (exMarket None (Some 0.45) None (Some 0.50)))))) = 100"
proof -
  have h1: "markets (exStore (exMarket None (Some 0.45) None (Some 0.50)))
              (ao_marketId (exOpportunity 0.45 0.50 (exMarket None (Some 0.45) None (Some 0.50))))
            = Some (exMarket None (Some 0.45) None (Some 0.50))"
    by (simp add: exStore_def exOpportunity_def)
  have h2: "ask (yesPrices (exMarket None (Some 0.45) None (Some 0.50))) = Some 0.45"
    and h3: "ask (noPrices (exMarket None (Some 0.45) None (Some 0.50))) = Some 0.50"
    by (simp_all add: exMarket_def)
  have h4: "minProfitThreshold exCfg \<noteq> 0"
    by (simp add: exCfg_def)
  show ?thesis
    using h1 h4 createExecutionPlan_revalidates [OF h1 h2 h3 h4, of 0]
    by (auto simp add: exCfg_def exOpportunity_def)
qed


section \<open>Execution engine: what one call of executeTrade does\<close>

lemma storeGetMarket_snd:
  "snd (storeGetMarket now k st) = st\<lparr> marketStore := snd (getMarket now k (marketStore st)) \<rparr>"
  by (simp add: storeGetMarket_def split: prod.splits)

lemma storeGetMarket_fst:
  "fst (storeGetMarket now k st) = fst (getMarket now k (marketStore st))"
  by (simp add: storeGetMarket_def split: prod.splits)

lemma storeGetMarket_eq:
  "storeGetMarket now k st = (fst (getMarket now k (marketStore st)), st\<lparr> marketStore := snd (getMarket now k (marketStore st)) \<rparr>)"
  by (simp add: storeGetMarket_def split: prod.splits)

lemma updatePositionPnL_fields:
  "currentBalance (updatePositionPnL now a st) = currentBalance st"
  "positions (updatePositionPnL now a st) = positions st"
  "tradeHistory (updatePositionPnL now a st) = tradeHistory st"
  "realizedPnL (updatePositionPnL now a st) = realizedPnL st"
  "uuidCounter (updatePositionPnL now a st) = uuidCounter st"
  "nextAddr (updatePositionPnL now a st) = nextAddr st"
  "startingCapital (updatePositionPnL now a st) = startingCapital st"
  by (simp_all add: updatePositionPnL_def storeGetMarket_eq Let_def split: option.splits)

lemma updatePositionPnL_objects:
  "yesTokens (objects (updatePositionPnL now a st) b) = yesTokens (objects st b)"
  "noTokens (objects (updatePositionPnL now a st) b) = noTokens (objects st b)"
  "yesEntryPrice (objects (updatePositionPnL now a st) b) = yesEntryPrice (objects st b)"
  "noEntryPrice (objects (updatePositionPnL now a st) b) = noEntryPrice (objects st b)"
  "ps_conditionId (objects (updatePositionPnL now a st) b) = ps_conditionId (objects st b)"
  "ps_marketId (objects (updatePositionPnL now a st) b) = ps_marketId (objects st b)"
  by (simp_all add: updatePositionPnL_def storeGetMarket_eq Let_def split: option.splits)

lemma updatePositionPnL_store:
  "markets (marketStore (updatePositionPnL now a st)) k = None \<longleftrightarrow> markets (marketStore st) k = None"
  by (simp add: updatePositionPnL_def storeGetMarket_eq getMarket_def Let_def split: option.splits)


lemma updatePosition_fields:
  "currentBalance (updatePosition now order price tokens st) = currentBalance st"
  "tradeHistory (updatePosition now order price tokens st) = tradeHistory st"
  "realizedPnL (updatePosition now order price tokens st) = realizedPnL st"
  "startingCapital (updatePosition now order price tokens st) = startingCapital st"
  by (simp_all add: updatePosition_def updatePositionPnL_fields uuidv4_def Let_def
        split: option.splits prod.splits)

lemma updatePosition_positions:
  "positions (updatePosition now order price tokens st) (to_marketId order) \<noteq> None"
  "k \<noteq> to_marketId order \<Longrightarrow> positions (updatePosition now order price tokens st) k = positions st k"
  "positions st (to_marketId order) = Some a \<Longrightarrow> positions (updatePosition now order price tokens st) = positions st"
  by (auto simp add: updatePosition_def updatePositionPnL_fields uuidv4_def Let_def
        split: option.splits prod.splits)

lemma updatePosition_heldTokens:
  "heldTokens (to_side order) (to_marketId order) (updatePosition now order price tokens st) =
     (let old = heldTokens (to_side order) (to_marketId order) st in
      case to_action order of
        BUY \<Rightarrow> old + tokens
      | SELL \<Rightarrow> if old - tokens \<le> 0 then 0 else old - tokens)"
  by (cases "to_side order"; cases "to_action order"; cases "positions st (to_marketId order)")
     (simp_all add: heldTokens_def sideTokens_def updatePosition_def updatePositionPnL_fields
        updatePositionPnL_objects uuidv4_def Let_def)

lemma updatePosition_heldEntryPrice:
  "heldEntryPrice (to_side order) (to_marketId order) (updatePosition now order price tokens st) =
     (let old = heldTokens (to_side order) (to_marketId order) st;
          e = heldEntryPrice (to_side order) (to_marketId order) st in
      case to_action order of
        BUY \<Rightarrow> (old * e + to_size order) / (old + tokens)
      | SELL \<Rightarrow> if old - tokens \<le> 0 then 0 else e)"
  by (cases "to_side order"; cases "to_action order"; cases "positions st (to_marketId order)")
     (simp_all add: heldTokens_def heldEntryPrice_def sideTokens_def sideEntryPrice_def
        updatePosition_def updatePositionPnL_fields
        updatePositionPnL_objects uuidv4_def Let_def)


lemma resolveFillPrice_snd:
  "snd (resolveFillPrice now order st) = st\<lparr> marketStore := marketStore (snd (resolveFillPrice now order st)) \<rparr>"
  by (simp add: resolveFillPrice_def storeGetMarket_eq Let_def split: option.splits TradeAction.splits)

lemma resolveFillPrice_None:
  "(fst (resolveFillPrice now order st) = None) =
     (\<not> truthy (to_price order) \<and> markets (marketStore st) (to_marketId order) = None)"
  by (auto simp add: resolveFillPrice_def storeGetMarket_eq getMarket_def truthy_def Let_def
        split: option.splits TradeAction.splits)

lemma resolveFillPrice_Some:
  "fst (resolveFillPrice now order st) = Some p \<Longrightarrow>
     (if truthy (to_price order) then to_price order = Some p
      else (\<exists>m. markets (marketStore st) (to_marketId order) = Some m \<and>
              p = orElse ((case to_action order of BUY \<Rightarrow> ask | SELL \<Rightarrow> bid)
                            (sidePrices (to_side order) m)) 0))"
  by (auto simp add: resolveFillPrice_def storeGetMarket_eq getMarket_def truthy_def Let_def sidePrices_def
        split: option.splits TradeAction.splits Outcome.splits)

lemma resolveFillPrice_fields:
  "currentBalance (snd (resolveFillPrice now order st)) = currentBalance st"
  "positions (snd (resolveFillPrice now order st)) = positions st"
  "objects (snd (resolveFillPrice now order st)) = objects st"
  "tradeHistory (snd (resolveFillPrice now order st)) = tradeHistory st"
  "realizedPnL (snd (resolveFillPrice now order st)) = realizedPnL st"
  "uuidCounter (snd (resolveFillPrice now order st)) = uuidCounter st"
  "nextAddr (snd (resolveFillPrice now order st)) = nextAddr st"
  by (subst resolveFillPrice_snd, simp)+

lemma executeTrade_rejected:
  assumes "to_mode order = PaperMode" "rejects now order st"
  shows "executeTrade now order st = Inr (rejectedResult now order, snd (resolveFillPrice now order st))"
  using assms
  by (cases "resolveFillPrice now order st")
     (auto simp add: executeTrade_def rejects_def Let_def resolveFillPrice_fields[of now order st, symmetric]
        split: option.splits simp del: resolveFillPrice_fields)


lemma held_update [simp]:
  "heldTokens sd m (st\<lparr> uuidCounter := u \<rparr>) = heldTokens sd m st"
  "heldTokens sd m (st\<lparr> currentBalance := b \<rparr>) = heldTokens sd m st"
  "heldTokens sd m (st\<lparr> tradeHistory := h \<rparr>) = heldTokens sd m st"
  "heldTokens sd m (st\<lparr> marketStore := ms \<rparr>) = heldTokens sd m st"
  "heldTokens sd m (st\<lparr> realizedPnL := r \<rparr>) = heldTokens sd m st"
  "heldEntryPrice sd m (st\<lparr> uuidCounter := u \<rparr>) = heldEntryPrice sd m st"
  "heldEntryPrice sd m (st\<lparr> currentBalance := b \<rparr>) = heldEntryPrice sd m st"
  "heldEntryPrice sd m (st\<lparr> tradeHistory := h \<rparr>) = heldEntryPrice sd m st"
  "heldEntryPrice sd m (st\<lparr> marketStore := ms \<rparr>) = heldEntryPrice sd m st"
  "heldEntryPrice sd m (st\<lparr> realizedPnL := r \<rparr>) = heldEntryPrice sd m st"
  by (simp_all add: heldTokens_def heldEntryPrice_def split: option.splits)

lemma executeTrade_filled:
  assumes "to_mode order = PaperMode" "\<not> rejects now order st"
     "fst (resolveFillPrice now order st) = Some p"
  shows "executeTrade now order st =
           Inr (\<lparr> fr_orderId = to_orderId order,
                   fills = [\<lparr> fillId = uuidCounter st, fl_orderId = to_orderId order,
                               fl_price = p, fl_size = to_size order, fl_timestamp = now \<rparr>],
                   status = Filled, totalFilled = to_size order,
                   averagePrice = p, fr_timestamp = now \<rparr>, filledState now order p st)"
  using assms
  by (cases "resolveFillPrice now order st")
     (auto simp add: executeTrade_def rejects_def filledState_def uuidv4_def Let_def
        resolveFillPrice_fields[of now order st, symmetric]
        split: option.splits simp del: resolveFillPrice_fields)


lemma filledState_fields:
  "currentBalance (filledState now order p st) =
     (if to_action order = BUY then currentBalance st - to_size order
      else currentBalance st + to_size order)"
  "realizedPnL (filledState now order p st) = realizedPnL st"
  "tradeHistory (filledState now order p st) =
     trimHistory (tradeHistory st @
       [\<lparr> tradeId = tradeId (last (tradeHistory (filledState now order p st))),
          tr_orderId = to_orderId order, tr_marketId = to_marketId order,
          tr_conditionId = to_conditionId order,
          tr_side = to_side order, tr_action = to_action order,
          tr_size = to_size order, tr_price = p,
          tr_status = Filled, tr_timestamp = now, tr_mode = PaperMode \<rparr>])"
  by (simp_all add: filledState_def Let_def updatePosition_fields resolveFillPrice_fields trimHistory_def)

lemma filledState_positions:
  "positions (filledState now order p st) (to_marketId order) \<noteq> None"
  "k \<noteq> to_marketId order \<Longrightarrow> positions (filledState now order p st) k = positions st k"
  by (simp_all add: filledState_def Let_def updatePosition_positions resolveFillPrice_fields)

lemma held_resolve [simp]:
  "heldTokens sd m (snd (resolveFillPrice now order st)) = heldTokens sd m st"
  "heldEntryPrice sd m (snd (resolveFillPrice now order st)) = heldEntryPrice sd m st"
  by (subst resolveFillPrice_snd, simp)+

lemma filledState_heldTokens:
  "heldTokens (to_side order) (to_marketId order) (filledState now order p st) =
     (let old = heldTokens (to_side order) (to_marketId order) st in
      case to_action order of
        BUY \<Rightarrow> old + to_size order / p
      | SELL \<Rightarrow> if old - to_size order / p \<le> 0 then 0 else old - to_size order / p)"
  by (simp add: filledState_def Let_def updatePosition_heldTokens)

lemma filledState_heldEntryPrice:
  "heldEntryPrice (to_side order) (to_marketId order) (filledState now order p st) =
     (let old = heldTokens (to_side order) (to_marketId order) st;
          e = heldEntryPrice (to_side order) (to_marketId order) st in
      case to_action order of
        BUY \<Rightarrow> (old * e + to_size order) / (old + to_size order / p)
      | SELL \<Rightarrow> if old - to_size order / p \<le> 0 then 0 else e)"
  by (simp add: filledState_def Let_def updatePosition_heldEntryPrice updatePosition_heldTokens)


lemma rejects_iff:
  "rejects now order st =
     ((\<not> truthy (to_price order) \<and> markets (marketStore st) (to_marketId order) = None)
      \<or> (\<exists>p. fst (resolveFillPrice now order st) = Some p \<and> (p \<le> 0 \<or> 1 < p))
      \<or> (to_action order = BUY \<and> currentBalance st < to_size order))"
  using resolveFillPrice_None[of now order st]
  by (auto simp add: rejects_def split: option.splits)

lemma executeTrade_Filled_D:
  assumes "to_mode order = PaperMode" "executeTrade now order st = Inr (res, st')"
      "status res = Filled"
  shows "\<not> rejects now order st" "fst (resolveFillPrice now order st) = Some (averagePrice res)"
      "st' = filledState now order (averagePrice res) st" "0 < averagePrice res"
      "averagePrice res \<le> 1"
proof -
  show nr: "\<not> rejects now order st"
    using assms executeTrade_rejected[OF assms(1), of now st]
    by (auto simp add: rejectedResult_def)
  then obtain p where p: "fst (resolveFillPrice now order st) = Some p"
    by (auto simp add: rejects_def split: option.splits)
  from executeTrade_filled[OF assms(1) nr p] assms(2)
  have eq: "averagePrice res = p" "st' = filledState now order p st" by auto
  then show "fst (resolveFillPrice now order st) = Some (averagePrice res)"
    "st' = filledState now order (averagePrice res) st" using p by simp_all
  show "0 < averagePrice res" "averagePrice res \<le> 1"
    using nr p eq by (auto simp add: rejects_def)
qed

text \<open>
  C6, as stated, fails for an order whose explicit price is 0: the test on the price of
  the order is a test of its truth value, so this order is priced from the store. A paper
  BUY of 50 on YES with price 0, on a market whose best YES ask is 0.5, is not rejected
  for a price of 0: it is filled at 0.5 and the balance falls from 1000 to 950.
\<close>

theorem executeTrade_zero_price_counterexample:
  "to_price (exOrder YES BUY 50 (Some 0)) = Some 0
   \<and> to_mode (exOrder YES BUY 50 (Some 0)) = PaperMode
   \<and> ask (yesPrices (exMarket None (Some (1/2)) None None)) = Some (1/2)
   \<and> status (fst (projr (executeTrade 0 (exOrder YES BUY 50 (Some 0))
        (exEngine (exStore (exMarket None (Some (1/2)) None None)))))) = Filled
   \<and> averagePrice (fst (projr (executeTrade 0 (exOrder YES BUY 50 (Some 0))
        (exEngine (exStore (exMarket None (Some (1/2)) None None)))))) = 1/2
   \<and> currentBalance (snd (projr (executeTrade 0 (exOrder YES BUY 50 (Some 0))
        (exEngine (exStore (exMarket None (Some (1/2)) None None)))))) = 950"
proof -
  let ?eng = "exEngine (exStore (exMarket None (Some (1/2)) None None))"
  let ?ord = "exOrder YES BUY 50 (Some 0)"
  have m: "to_mode ?ord = PaperMode" by (simp add: exOrder_def)
  have p: "fst (resolveFillPrice 0 ?ord ?eng) = Some (1/2)"
    by (simp add: resolveFillPrice_def storeGetMarket_eq getMarket_def truthy_def orElse_def
          sidePrices_def exOrder_def exEngine_def exStore_def exMarket_def Let_def)
  have h: "currentBalance ?eng = 1000" "to_action ?ord = BUY" "to_size ?ord = 50"
    "to_price ?ord = Some 0"
    by (simp_all add: exEngine_def exOrder_def)
  have nr: "\<not> rejects 0 ?ord ?eng"
    using p by (simp add: rejects_def h)
  have bal: "currentBalance (filledState 0 ?ord (1/2) ?eng) = 950"
    by (simp add: filledState_fields(1) h)
  have ex: "executeTrade 0 ?ord ?eng =
      Inr (\<lparr> fr_orderId = to_orderId ?ord,
              fills = [\<lparr> fillId = uuidCounter ?eng, fl_orderId = to_orderId ?ord,
                          fl_price = 1/2, fl_size = to_size ?ord, fl_timestamp = 0 \<rparr>],
              status = Filled, totalFilled = to_size ?ord,
              averagePrice = 1/2, fr_timestamp = 0 \<rparr>, filledState 0 ?ord (1/2) ?eng)"
    by (rule executeTrade_filled [OF m nr p])
  have a: "ask (yesPrices (exMarket None (Some (1/2)) None None)) = Some (1/2)"
    by (simp add: exMarket_def)
  show ?thesis
    unfolding ex using bal h(4) m a by simp
qed

text \<open>
  C6, amended. For an order with mode paper, \<open>executeTrade\<close> returns a result (it does
  not throw), and the result is a rejection exactly when the order has no usable explicit
  price (none, or the price 0) and the store has no data for its market, or the resolved
  fill price is at most 0 or above 1, or the order is a BUY and the balance is below its
  size. A rejection leaves balance, position map, position objects, trade history and
  realised profit as they were; in every other case the order is filled. The resolved
  fill price is the explicit price when there is one and it is not 0, else the best ask
  (BUY) or best bid (SELL) of the side, with 0 for a missing quote.
\<close>

theorem executeTrade_rejects_exactly_when:
  assumes "to_mode order = PaperMode"
  shows "\<exists>res st'. executeTrade now order st = Inr (res, st')
     \<and> (status res = Rejected) =
         ((\<not> truthy (to_price order) \<and> markets (marketStore st) (to_marketId order) = None)
          \<or> (\<exists>p. fst (resolveFillPrice now order st) = Some p \<and> (p \<le> 0 \<or> 1 < p))
          \<or> (to_action order = BUY \<and> currentBalance st < to_size order))
     \<and> (status res = Rejected \<longrightarrow>
            currentBalance st' = currentBalance st \<and> positions st' = positions st
          \<and> objects st' = objects st \<and> tradeHistory st' = tradeHistory st
          \<and> realizedPnL st' = realizedPnL st \<and> fills res = [])
     \<and> (status res \<noteq> Rejected \<longrightarrow> status res = Filled \<and> totalFilled res = to_size order
          \<and> fst (resolveFillPrice now order st) = Some (averagePrice res))
     \<and> (\<forall>p. fst (resolveFillPrice now order st) = Some p \<longrightarrow>
           (if truthy (to_price order) then to_price order = Some p
            else (\<exists>m. markets (marketStore st) (to_marketId order) = Some m \<and>
                    p = orElse ((case to_action order of BUY \<Rightarrow> ask | SELL \<Rightarrow> bid)
                                  (sidePrices (to_side order) m)) 0)))"
proof (cases "rejects now order st")
  case True
  have "executeTrade now order st = Inr (rejectedResult now order, snd (resolveFillPrice now order st))"
    using assms True by (rule executeTrade_rejected)
  moreover have "status (rejectedResult now order) = Rejected" "fills (rejectedResult now order) = []"
    by (simp_all add: rejectedResult_def)
  ultimately show ?thesis
    using True resolveFillPrice_Some[of now order st] unfolding rejects_iff
    by (simp add: resolveFillPrice_fields)
next
  case False
  then obtain p where p: "fst (resolveFillPrice now order st) = Some p"
    by (auto simp add: rejects_def split: option.splits)
  show ?thesis
    using executeTrade_filled[OF assms False p] False p resolveFillPrice_Some[of now order st]
    unfolding rejects_iff by simp
qed

theorem executeTrade_rejects_exactly_when_witness:
  "to_mode (exOrder YES BUY 2000 (Some 0.5)) = PaperMode
   \<and> status (fst (projr (executeTrade 0 (exOrder YES BUY 2000 (Some 0.5))
                 (exEngine (exStore (exMarket None (Some 0.45) None (Some 0.5))))))) = Rejected
   \<and> status (fst (projr (executeTrade 0 (exOrder YES BUY 50 None)
                 (exEngine (exStore (exMarket None (Some 0.45) None (Some 0.5))))))) = Filled"
proof -
  let ?eng = "exEngine (exStore (exMarket None (Some 0.45) None (Some 0.5)))"
  have h1: "to_mode (exOrder YES BUY 2000 (Some 0.5)) = PaperMode"
    and h2: "to_mode (exOrder YES BUY 50 None) = PaperMode"
    by (simp_all add: exOrder_def)
  have p2: "fst (resolveFillPrice 0 (exOrder YES BUY 50 None) ?eng) = Some 0.45"
    by (simp add: resolveFillPrice_def storeGetMarket_eq getMarket_def truthy_def orElse_def
          sidePrices_def exOrder_def exEngine_def exStore_def exMarket_def Let_def)
  have a: "status (fst (projr (executeTrade 0 (exOrder YES BUY 2000 (Some 0.5)) ?eng))) = Rejected"
    using executeTrade_rejects_exactly_when [OF h1, of 0 ?eng]
    by (auto simp add: exOrder_def exEngine_def)
  have b: "status (fst (projr (executeTrade 0 (exOrder YES BUY 50 None) ?eng))) = Filled"
    using executeTrade_rejects_exactly_when [OF h2, of 0 ?eng] p2
    by (auto simp add: exOrder_def exEngine_def exStore_def truthy_def)
  show ?thesis using h1 a b by simp
qed

text \<open>
  C2, as stated, fails: \<open>executeTrade\<close> makes no test on the tokens held. On an engine
  without any position, a paper SELL of 50 on YES at the limit price 0.5 is filled, the
  balance rises from 1000 to 1050 and a trade is recorded.
\<close>

theorem executeTrade_sell_counterexample:
  "heldTokens YES ''m1'' (exEngine (exStore (exMarket None None None None))) = 0
   \<and> status (fst (projr (executeTrade 0 (exOrder YES SELL 50 (Some (1/2)))
                 (exEngine (exStore (exMarket None None None None)))))) = Filled
   \<and> currentBalance (exEngine (exStore (exMarket None None None None))) = 1000
   \<and> currentBalance (snd (projr (executeTrade 0 (exOrder YES SELL 50 (Some (1/2)))
                 (exEngine (exStore (exMarket None None None None)))))) = 1050
   \<and> length (tradeHistory (snd (projr (executeTrade 0 (exOrder YES SELL 50 (Some (1/2)))
                 (exEngine (exStore (exMarket None None None None))))))) = 1"
proof -
  let ?eng = "exEngine (exStore (exMarket None None None None))"
  let ?ord = "exOrder YES SELL 50 (Some (1/2))"
  have m: "to_mode ?ord = PaperMode" by (simp add: exOrder_def)
  have p: "fst (resolveFillPrice 0 ?ord ?eng) = Some (1/2)"
    by (simp add: resolveFillPrice_def truthy_def exOrder_def)
  have nr: "\<not> rejects 0 ?ord ?eng"
    using p by (simp add: rejects_def exOrder_def)
  have h: "tradeHistory ?eng = []" "currentBalance ?eng = 1000"
    "to_action ?ord = SELL" "to_size ?ord = 50"
    by (simp_all add: exEngine_def exOrder_def)
  have len: "length (tradeHistory (filledState 0 ?ord (1/2) ?eng)) = 1"
    by (subst filledState_fields(3)) (simp add: trimHistory_def h)
  have bal: "currentBalance (filledState 0 ?ord (1/2) ?eng) = 1050"
    by (simp add: filledState_fields(1) h)
  have held: "heldTokens YES ''m1'' ?eng = 0"
    by (simp add: heldTokens_def exEngine_def)
  have ex: "executeTrade 0 ?ord ?eng =
      Inr (\<lparr> fr_orderId = to_orderId ?ord,
              fills = [\<lparr> fillId = uuidCounter ?eng, fl_orderId = to_orderId ?ord,
                          fl_price = 1/2, fl_size = to_size ?ord, fl_timestamp = 0 \<rparr>],
              status = Filled, totalFilled = to_size ?ord,
              averagePrice = 1/2, fr_timestamp = 0 \<rparr>, filledState 0 ?ord (1/2) ?eng)"
    by (rule executeTrade_filled [OF m nr p])
  show ?thesis
    unfolding ex using len bal held h(2) by simp
qed

text \<open>
  C2, amended. For a paper SELL on an outcome of which the engine holds no tokens,
  \<open>executeTrade\<close> rejects only for the price reasons (no market data for an order
  without usable price, or a resolved price at most 0 or above 1), and then balance,
  positions and history are unchanged. Otherwise it fills the order: the balance is
  credited with the size of the order, one trade record of the sale is appended, the
  market has a position, and for a size that is not negative the outcome stays at zero
  tokens with entry price 0.
\<close>

theorem executeTrade_sell_of_nothing:
  assumes "to_mode order = PaperMode" "to_action order = SELL"
      "heldTokens (to_side order) (to_marketId order) st = 0"
  shows "\<exists>res st'. executeTrade now order st = Inr (res, st')
     \<and> (status res = Rejected) =
         ((\<not> truthy (to_price order) \<and> markets (marketStore st) (to_marketId order) = None)
          \<or> (\<exists>p. fst (resolveFillPrice now order st) = Some p \<and> (p \<le> 0 \<or> 1 < p)))
     \<and> (status res = Rejected \<longrightarrow>
            currentBalance st' = currentBalance st \<and> positions st' = positions st
          \<and> objects st' = objects st \<and> tradeHistory st' = tradeHistory st)
     \<and> (status res \<noteq> Rejected \<longrightarrow> status res = Filled
          \<and> currentBalance st' = currentBalance st + to_size order
          \<and> (\<exists>r. tradeHistory st' = trimHistory (tradeHistory st @ [r])
                 \<and> tr_marketId r = to_marketId order \<and> tr_side r = to_side order
                 \<and> tr_action r = SELL \<and> tr_size r = to_size order
                 \<and> tr_price r = averagePrice res)
          \<and> positions st' (to_marketId order) \<noteq> None
          \<and> (0 \<le> to_size order \<longrightarrow>
                heldTokens (to_side order) (to_marketId order) st' = 0
              \<and> heldEntryPrice (to_side order) (to_marketId order) st' = 0))"
proof (cases "rejects now order st")
  case True
  have "executeTrade now order st = Inr (rejectedResult now order, snd (resolveFillPrice now order st))"
    using assms(1) True by (rule executeTrade_rejected)
  moreover have "status (rejectedResult now order) = Rejected"
    by (simp add: rejectedResult_def)
  ultimately show ?thesis
    using True assms(2) unfolding rejects_iff by (simp add: resolveFillPrice_fields)
next
  case False
  then obtain p where p: "fst (resolveFillPrice now order st) = Some p"
    by (auto simp add: rejects_def split: option.splits)
  from False p have pr: "0 < p" "p \<le> 1" by (auto simp add: rejects_def)
  have tok: "0 \<le> to_size order \<Longrightarrow> 0 - to_size order / p \<le> 0"
    using pr by simp
  have hist: "\<exists>r. tradeHistory (filledState now order p st) = trimHistory (tradeHistory st @ [r])
                 \<and> tr_marketId r = to_marketId order \<and> tr_side r = to_side order
                 \<and> tr_action r = SELL \<and> tr_size r = to_size order \<and> tr_price r = p"
    using assms(2) by (subst filledState_fields(3)) (rule exI, rule conjI, rule refl, simp)
  show ?thesis
    using executeTrade_filled[OF assms(1) False p] False p assms(2,3) tok hist
      filledState_positions(1)[of now order p st]
    unfolding rejects_iff
    by (simp add: filledState_fields(1,2) filledState_heldTokens
          filledState_heldEntryPrice Let_def)
qed

theorem executeTrade_sell_of_nothing_witness:
  "to_mode (exOrder NO SELL 20 (Some (1/4))) = PaperMode
   \<and> to_action (exOrder NO SELL 20 (Some (1/4))) = SELL
   \<and> heldTokens NO ''m1'' (exEngine (exStore (exMarket None None None None))) = 0
   \<and> status (fst (projr (executeTrade 0 (exOrder NO SELL 20 (Some (1/4)))
                 (exEngine (exStore (exMarket None None None None)))))) = Filled
   \<and> currentBalance (snd (projr (executeTrade 0 (exOrder NO SELL 20 (Some (1/4)))
                 (exEngine (exStore (exMarket None None None None)))))) = 1020
   \<and> heldTokens NO ''m1'' (snd (projr (executeTrade 0 (exOrder NO SELL 20 (Some (1/4)))
                 (exEngine (exStore (exMarket None None None None)))))) = 0"
proof -
  let ?eng = "exEngine (exStore (exMarket None None None None))"
  let ?ord = "exOrder NO SELL 20 (Some (1/4))"
  have e: "to_side ?ord = NO" "to_marketId ?ord = ''m1''" "to_size ?ord = 20"
    "currentBalance ?eng = 1000"
    by (simp_all add: exOrder_def exEngine_def)
  have h1: "to_mode ?ord = PaperMode" and h2: "to_action ?ord = SELL"
    by (simp_all add: exOrder_def)
  have h3: "heldTokens (to_side ?ord) (to_marketId ?ord) ?eng = 0"
    by (simp add: heldTokens_def exEngine_def)
  have p: "fst (resolveFillPrice 0 ?ord ?eng) = Some (1/4)"
    by (simp add: resolveFillPrice_def truthy_def exOrder_def)
  have t: "truthy (to_price ?ord)" by (simp add: truthy_def exOrder_def)
  from executeTrade_sell_of_nothing [OF h1 h2 h3, of 0]
  obtain res st' where ex: "executeTrade 0 ?ord ?eng = Inr (res, st')"
    and rj: "(status res = Rejected) =
         ((\<not> truthy (to_price ?ord) \<and> markets (marketStore ?eng) (to_marketId ?ord) = None)
          \<or> (\<exists>p. fst (resolveFillPrice 0 ?ord ?eng) = Some p \<and> (p \<le> 0 \<or> 1 < p)))"
    and fl: "status res \<noteq> Rejected \<longrightarrow> status res = Filled
          \<and> currentBalance st' = currentBalance ?eng + to_size ?ord
          \<and> (0 \<le> to_size ?ord \<longrightarrow>
                heldTokens (to_side ?ord) (to_marketId ?ord) st' = 0)"
    by blast
  have nrj: "status res \<noteq> Rejected"
    unfolding rj p using t by simp
  have "status res = Filled" "currentBalance st' = 1020" "heldTokens NO ''m1'' st' = 0"
    using fl nrj unfolding e by simp_all
  then show ?thesis
    unfolding ex using h1 h2 h3 unfolding e by simp
qed


section \<open>Entry prices\<close>

text \<open>
  C9. A filled paper BUY of size \<open>S\<close> at fill price \<open>p\<close> on an outcome that holds
  \<open>oldTokens\<close> at entry price \<open>e\<close> leaves \<open>oldTokens + S / p\<close> tokens at the entry
  price \<open>(oldTokens * e + S) / (oldTokens + S / p)\<close>. Hence after two filled buys of
  positive sizes of one outcome that held no tokens, the entry price is the money
  spent, \<open>S1 + S2\<close>, divided by the tokens held, \<open>S1 / p1 + S2 / p2\<close>, whatever the
  two prices are. (The divisor is taken to be non-zero.)
\<close>

theorem buy_updates_entry_price:
  "(to_mode order = PaperMode \<and> to_action order = BUY
      \<and> executeTrade now order st = Inr (res, st') \<and> status res = Filled
      \<and> heldTokens (to_side order) (to_marketId order) st
           + to_size order / averagePrice res \<noteq> 0
    \<longrightarrow> heldTokens (to_side order) (to_marketId order) st'
          = heldTokens (to_side order) (to_marketId order) st
              + to_size order / averagePrice res
      \<and> heldEntryPrice (to_side order) (to_marketId order) st'
          = (heldTokens (to_side order) (to_marketId order) st
               * heldEntryPrice (to_side order) (to_marketId order) st + to_size order)
            / (heldTokens (to_side order) (to_marketId order) st
                 + to_size order / averagePrice res))
   \<and> (to_mode oA = PaperMode \<and> to_mode oB = PaperMode
      \<and> to_action oA = BUY \<and> to_action oB = BUY
      \<and> to_marketId oB = to_marketId oA \<and> to_side oB = to_side oA
      \<and> heldTokens (to_side oA) (to_marketId oA) sInit = 0
      \<and> 0 < to_size oA \<and> 0 < to_size oB
      \<and> executeTrade tA oA sInit = Inr (rA, sA) \<and> status rA = Filled
      \<and> executeTrade tB oB sA = Inr (rB, sB) \<and> status rB = Filled
    \<longrightarrow> heldTokens (to_side oA) (to_marketId oA) sB
          = to_size oA / averagePrice rA + to_size oB / averagePrice rB
      \<and> heldEntryPrice (to_side oA) (to_marketId oA) sB
          = (to_size oA + to_size oB)
            / (to_size oA / averagePrice rA + to_size oB / averagePrice rB))"
proof (intro conjI impI)
  assume a: "to_mode order = PaperMode \<and> to_action order = BUY
      \<and> executeTrade now order st = Inr (res, st') \<and> status res = Filled
      \<and> heldTokens (to_side order) (to_marketId order) st
           + to_size order / averagePrice res \<noteq> 0"
  then have st': "st' = filledState now order (averagePrice res) st"
    using executeTrade_Filled_D(3) by blast
  show "heldTokens (to_side order) (to_marketId order) st'
          = heldTokens (to_side order) (to_marketId order) st
              + to_size order / averagePrice res"
    using a unfolding st' by (simp add: filledState_heldTokens Let_def)
  show "heldEntryPrice (to_side order) (to_marketId order) st'
          = (heldTokens (to_side order) (to_marketId order) st
               * heldEntryPrice (to_side order) (to_marketId order) st + to_size order)
            / (heldTokens (to_side order) (to_marketId order) st
                 + to_size order / averagePrice res)"
    using a unfolding st' by (simp add: filledState_heldEntryPrice Let_def)
next
  assume b: "to_mode oA = PaperMode \<and> to_mode oB = PaperMode
      \<and> to_action oA = BUY \<and> to_action oB = BUY
      \<and> to_marketId oB = to_marketId oA \<and> to_side oB = to_side oA
      \<and> heldTokens (to_side oA) (to_marketId oA) sInit = 0
      \<and> 0 < to_size oA \<and> 0 < to_size oB
      \<and> executeTrade tA oA sInit = Inr (rA, sA) \<and> status rA = Filled
      \<and> executeTrade tB oB sA = Inr (rB, sB) \<and> status rB = Filled"
  let ?pA = "averagePrice rA" and ?pB = "averagePrice rB"
  have sA: "sA = filledState tA oA ?pA sInit" and pA: "0 < ?pA"
    using b executeTrade_Filled_D(3,4) by blast+
  have sB: "sB = filledState tB oB ?pB sA" and pB: "0 < ?pB"
    using b executeTrade_Filled_D(3,4) by blast+
  have tokA: "heldTokens (to_side oA) (to_marketId oA) sA = to_size oA / ?pA"
    using b unfolding sA by (simp add: filledState_heldTokens Let_def)
  have entA: "heldEntryPrice (to_side oA) (to_marketId oA) sA = to_size oA / (to_size oA / ?pA)"
    using b unfolding sA by (simp add: filledState_heldEntryPrice Let_def)
  have sideB: "to_side oB = to_side oA" "to_marketId oB = to_marketId oA" "to_action oB = BUY"
    using b by simp_all
  show "heldTokens (to_side oA) (to_marketId oA) sB
          = to_size oA / ?pA + to_size oB / ?pB"
    using filledState_heldTokens [where order=oB and now=tB and p="?pB" and st=sA] tokA
    unfolding sB sideB by (simp add: Let_def)
  have spent: "to_size oA / ?pA * (to_size oA / (to_size oA / ?pA)) = to_size oA"
    using b pA by simp
  show "heldEntryPrice (to_side oA) (to_marketId oA) sB
          = (to_size oA + to_size oB) / (to_size oA / ?pA + to_size oB / ?pB)"
    using filledState_heldEntryPrice [where order=oB and now=tB and p="?pB" and st=sA]
      tokA entA spent
    unfolding sB sideB by (simp add: Let_def)
qed

theorem buy_updates_entry_price_witness:
  "heldTokens YES ''m1'' (exEngine (exStore (exMarket None None None None))) = 0
   \<and> status (fst (projr (executeTrade 0 (exOrder YES BUY 40 (Some (2/5)))
        (exEngine (exStore (exMarket None None None None)))))) = Filled
   \<and> status (fst (projr (executeTrade 0 (exOrder YES BUY 60 (Some (3/5)))
        (snd (projr (executeTrade 0 (exOrder YES BUY 40 (Some (2/5)))
           (exEngine (exStore (exMarket None None None None))))))))) = Filled
   \<and> heldTokens YES ''m1'' (snd (projr (executeTrade 0 (exOrder YES BUY 60 (Some (3/5)))
        (snd (projr (executeTrade 0 (exOrder YES BUY 40 (Some (2/5)))
           (exEngine (exStore (exMarket None None None None))))))))) = 200
   \<and> heldEntryPrice YES ''m1'' (snd (projr (executeTrade 0 (exOrder YES BUY 60 (Some (3/5)))
        (snd (projr (executeTrade 0 (exOrder YES BUY 40 (Some (2/5)))
           (exEngine (exStore (exMarket None None None None))))))))) = 1/2"
proof -
  let ?eng = "exEngine (exStore (exMarket None None None None))"
  let ?oA = "exOrder YES BUY 40 (Some (2/5))"
  let ?oB = "exOrder YES BUY 60 (Some (3/5))"
  let ?sA = "filledState 0 ?oA (2/5) ?eng"
  let ?sB = "filledState 0 ?oB (3/5) ?sA"
  have o: "to_mode ?oA = PaperMode" "to_mode ?oB = PaperMode"
    "to_action ?oA = BUY" "to_action ?oB = BUY"
    "to_marketId ?oA = ''m1''" "to_marketId ?oB = ''m1''"
    "to_side ?oA = YES" "to_side ?oB = YES" "to_size ?oA = 40" "to_size ?oB = 60"
    by (simp_all add: exOrder_def)
  have held: "heldTokens YES ''m1'' ?eng = 0"
    by (simp add: heldTokens_def exEngine_def)
  have pA: "fst (resolveFillPrice 0 ?oA ?eng) = Some (2/5)"
    by (simp add: resolveFillPrice_def truthy_def exOrder_def)
  have nrA: "\<not> rejects 0 ?oA ?eng"
    using pA by (simp add: rejects_def o exEngine_def)
  note exA = executeTrade_filled [OF o(1) nrA pA]
  have pB: "fst (resolveFillPrice 0 ?oB ?sA) = Some (3/5)"
    by (simp add: resolveFillPrice_def truthy_def exOrder_def)
  have balA: "currentBalance ?sA = 960"
    by (simp add: filledState_fields(1) o exEngine_def)
  have nrB: "\<not> rejects 0 ?oB ?sA"
    using pB by (simp add: rejects_def o balA)
  note exB = executeTrade_filled [OF o(2) nrB pB]
  have "heldTokens (to_side ?oA) (to_marketId ?oA) ?sB
          = to_size ?oA / (2/5) + to_size ?oB / (3/5)
      \<and> heldEntryPrice (to_side ?oA) (to_marketId ?oA) ?sB
          = (to_size ?oA + to_size ?oB) / (to_size ?oA / (2/5) + to_size ?oB / (3/5))"
    using buy_updates_entry_price [where oA="?oA" and oB="?oB"
        and sInit="?eng" and tA=0 and tB=0 and sA="?sA" and sB="?sB"
        and rA="\<lparr> fr_orderId = to_orderId ?oA,
                  fills = [\<lparr> fillId = uuidCounter ?eng, fl_orderId = to_orderId ?oA,
                              fl_price = 2/5, fl_size = to_size ?oA, fl_timestamp = 0 \<rparr>],
                  status = Filled, totalFilled = to_size ?oA,
                  averagePrice = 2/5, fr_timestamp = 0 \<rparr>"
        and rB="\<lparr> fr_orderId = to_orderId ?oB,
                  fills = [\<lparr> fillId = uuidCounter ?sA, fl_orderId = to_orderId ?oB,
                              fl_price = 3/5, fl_size = to_size ?oB, fl_timestamp = 0 \<rparr>],
                  status = Filled, totalFilled = to_size ?oB,
                  averagePrice = 3/5, fr_timestamp = 0 \<rparr>", THEN conjunct2]
      exA exB held
    by (simp add: o)
  then have "heldTokens YES ''m1'' ?sB = 200" "heldEntryPrice YES ''m1'' ?sB = 1/2"
    by (simp_all add: o)
  then show ?thesis
    using held by (simp add: exA exB)
qed

section \<open>Redemption\<close>

text \<open>
  C7. For a market with a position, \<open>redeemPosition\<close> credits the balance with the
  tokens of the winning outcome at 1 each (the losing outcome pays nothing), adds to the
  realised profit the sum over both outcomes of tokens times (settlement value minus
  entry price), appends one trade record of the redemption and removes the position.
  For 10 YES tokens entered at 0.4 and 5 NO tokens entered at 0.5 with YES the winner,
  the proceeds are 10 and the realised profit is 3.5.
\<close>

theorem redeemPosition_settles:
  assumes "positions st marketId = Some a"
  shows "currentBalance (redeemPosition now marketId w st)
           = currentBalance st
             + (if w = 0 then yesTokens (objects st a) * 1 + noTokens (objects st a) * 0
                else noTokens (objects st a) * 1 + yesTokens (objects st a) * 0)
       \<and> realizedPnL (redeemPosition now marketId w st)
           = realizedPnL st
             + (if w = 0
                then yesTokens (objects st a) * (1 - yesEntryPrice (objects st a))
                   + noTokens (objects st a) * (0 - noEntryPrice (objects st a))
                else noTokens (objects st a) * (1 - noEntryPrice (objects st a))
                   + yesTokens (objects st a) * (0 - yesEntryPrice (objects st a)))
       \<and> (\<exists>r. tradeHistory (redeemPosition now marketId w st)
                  = trimHistory (tradeHistory st @ [r])
              \<and> last (tradeHistory (redeemPosition now marketId w st)) = r
              \<and> tr_marketId r = marketId \<and> tr_side r = (if w = 0 then YES else NO)
              \<and> tr_action r = SELL \<and> tr_price r = 1 \<and> tr_status r = Filled
              \<and> tr_size r = (if w = 0 then yesTokens (objects st a)
                              else noTokens (objects st a)))
       \<and> positions (redeemPosition now marketId w st) = (positions st)(marketId := None)
       \<and> (yesTokens (objects st a) = 10 \<and> yesEntryPrice (objects st a) = 0.4
            \<and> noTokens (objects st a) = 5 \<and> noEntryPrice (objects st a) = 0.5 \<and> w = 0
          \<longrightarrow> currentBalance (redeemPosition now marketId w st) = currentBalance st + 10
            \<and> realizedPnL (redeemPosition now marketId w st) = realizedPnL st + 3.5)"
  using assms
  by (simp add: redeemPosition_def uuidv4_def trimHistory_def Let_def)

theorem redeemPosition_settles_witness:
  "positions (exHolding 10 (2/5) 5 (1/2) (exStore (exMarket None None None None))) ''m1'' = Some 0
   \<and> currentBalance (redeemPosition 0 ''m1'' 0
        (exHolding 10 (2/5) 5 (1/2) (exStore (exMarket None None None None)))) = 1010
   \<and> realizedPnL (redeemPosition 0 ''m1'' 0
        (exHolding 10 (2/5) 5 (1/2) (exStore (exMarket None None None None)))) = 7/2
   \<and> positions (redeemPosition 0 ''m1'' 0
        (exHolding 10 (2/5) 5 (1/2) (exStore (exMarket None None None None)))) ''m1'' = None"
proof -
  let ?eng = "exHolding 10 (2/5) 5 (1/2) (exStore (exMarket None None None None))"
  have h: "positions ?eng ''m1'' = Some 0"
    by (simp add: exHolding_def)
  have v: "yesTokens (objects ?eng 0) = 10" "yesEntryPrice (objects ?eng 0) = 2/5"
    "noTokens (objects ?eng 0) = 5" "noEntryPrice (objects ?eng 0) = 1/2"
    "currentBalance ?eng = 1000" "realizedPnL ?eng = 0"
    by (simp_all add: exHolding_def)
  show ?thesis
    using h redeemPosition_settles [OF h, of 0 0] by (simp add: v)
qed

section \<open>Closing a position\<close>

lemma getMarket_fst:
  "fst (getMarket now k s) =
     map_option (\<lambda>m. m\<lparr> md_isStale := isStale now s (md_lastUpdate m) \<rparr>) (markets s k)"
  by (simp add: getMarket_def Let_def split: option.splits)

lemma getMarket_snd:
  "markets (snd (getMarket now k s)) k' = (if k' = k then fst (getMarket now k s) else markets s k')"
  by (simp add: getMarket_def Let_def split: option.splits)

lemma resolveFillPrice_market:
  assumes "to_price order = None" "markets (marketStore st) (to_marketId order) = Some mk"
  shows "fst (resolveFillPrice now order st) =
           Some (orElse ((case to_action order of BUY \<Rightarrow> ask | SELL \<Rightarrow> bid)
                            (sidePrices (to_side order) mk)) 0)"
  using assms
  by (simp add: resolveFillPrice_def truthy_def storeGetMarket_eq getMarket_fst sidePrices_def Let_def
        split: TradeAction.splits Outcome.splits)

lemma closeLeg_filled_adds_nothing:
  assumes pos: "positions st marketId = Some a"
      and tok: "0 < sideTokens sd (objects st a)"
      and mk: "markets (marketStore st) marketId = Some mk"
      and b: "bid (sidePrices sd mk) = Some b" "0 < b" "b \<le> 1"
  shows "\<exists>res st'. closeLeg now marketId a sd st = Inr ([res], st')
           \<and> status res = Filled \<and> averagePrice res = b
           \<and> currentBalance st' = currentBalance st + sideTokens sd (objects st a) * b
           \<and> realizedPnL st' = realizedPnL st
           \<and> sideTokens sd (objects st' a) = 0
           \<and> positions st' = positions st
           \<and> length (tradeHistory st') = min 1000 (Suc (length (tradeHistory st)))"
proof -
  let ?t = "sideTokens sd (objects st a)"
  let ?st1 = "snd (storeGetMarket now marketId st)"
  let ?st2 = "?st1\<lparr> uuidCounter := Suc (uuidCounter ?st1) \<rparr>"
  let ?ord = "\<lparr> to_orderId = uuidCounter ?st1, to_marketId = marketId,
                to_conditionId = ps_conditionId (objects ?st1 a),
                to_side = sd, to_action = SELL,
                to_size = ?t * b,
                to_price = None, to_mode = PaperMode, to_timestamp = now \<rparr>"
  have mk2: "\<exists>mk'. markets (marketStore ?st2) marketId = Some mk' \<and> sidePrices sd mk' = sidePrices sd mk"
    using mk by (simp add: storeGetMarket_eq getMarket_snd getMarket_fst sidePrices_def split: Outcome.splits)
  then obtain mk' where mk': "markets (marketStore ?st2) marketId = Some mk'"
     "sidePrices sd mk' = sidePrices sd mk" by blast
  have p: "fst (resolveFillPrice now ?ord ?st2) = Some b"
    using resolveFillPrice_market[where order="?ord" and st="?st2" and mk="mk'" and now=now] mk' b by (simp add: orElse_def)
  have nr: "\<not> rejects now ?ord ?st2"
    using p b by (simp add: rejects_def)
  have m: "to_mode ?ord = PaperMode" by simp
  note ex = executeTrade_filled[OF m nr p]
  have fp: "orElse (case fst (storeGetMarket now marketId st) of None \<Rightarrow> None
                     | Some m \<Rightarrow> bid (sidePrices sd m)) (sideEntryPrice sd (objects ?st1 a)) = b"
    using mk b by (simp add: storeGetMarket_eq getMarket_fst orElse_def sidePrices_def split: Outcome.splits)
  have pos2: "positions ?st2 marketId = Some a"
    using pos by (simp add: storeGetMarket_eq)
  have held2: "heldTokens sd marketId ?st2 = ?t"
    using pos by (simp add: heldTokens_def storeGetMarket_eq)
  let ?st3 = "filledState now ?ord b ?st2"
  have pos3: "positions ?st3 = positions st"
    using pos2 by (simp add: filledState_def Let_def updatePosition_positions(3)[of _ _ a]
        resolveFillPrice_fields storeGetMarket_eq)
  have "heldTokens sd marketId ?st3 = 0"
    using filledState_heldTokens[where now=now and order="?ord" and p=b and st="?st2"] held2 b by (simp add: Let_def)
  then have tok3: "sideTokens sd (objects ?st3 a) = 0"
    using pos3 pos by (simp add: heldTokens_def)
  have bal3: "currentBalance ?st3 = currentBalance st + ?t * b"
    by (simp add: filledState_fields(1) storeGetMarket_eq)
  have rp3: "realizedPnL ?st3 = realizedPnL st"
    by (simp add: filledState_fields(2) storeGetMarket_eq)
  have len3: "length (tradeHistory ?st3) = min 1000 (Suc (length (tradeHistory st)))"
    by (subst filledState_fields(3)) (simp add: trimHistory_def storeGetMarket_eq)
  have "closeLeg now marketId a sd st =
          Inr ([\<lparr> fr_orderId = to_orderId ?ord,
                   fills = [\<lparr> fillId = uuidCounter ?st2, fl_orderId = to_orderId ?ord,
                               fl_price = b, fl_size = to_size ?ord, fl_timestamp = now \<rparr>],
                   status = Filled, totalFilled = to_size ?ord,
                   averagePrice = b, fr_timestamp = now \<rparr>],
               ?st3\<lparr> realizedPnL := realizedPnL ?st3 +
                   sideTokens sd (objects ?st3 a) * (b - sideEntryPrice sd (objects ?st3 a)) \<rparr>)"
    using tok fp ex
    by (simp add: closeLeg_def uuidv4_def Let_def storeGetMarket_eq)
  then show ?thesis
    using tok3 bal3 rp3 pos3 len3 by simp
qed

lemma closeLeg_rejected_accrues:
  assumes tok: "0 < sideTokens sd (objects st a)"
      and rej: "case markets (marketStore st) marketId of
                  None \<Rightarrow> True
                | Some mk \<Rightarrow> orElse (bid (sidePrices sd mk)) 0 \<le> 0 \<or> 1 < orElse (bid (sidePrices sd mk)) 0"
  shows "\<exists>res st'. closeLeg now marketId a sd st = Inr ([res], st')
           \<and> status res = Rejected
           \<and> currentBalance st' = currentBalance st
           \<and> tradeHistory st' = tradeHistory st
           \<and> positions st' = positions st \<and> objects st' = objects st
           \<and> realizedPnL st' = realizedPnL st
                + sideTokens sd (objects st a)
                  * (orElse (case markets (marketStore st) marketId of
                               None \<Rightarrow> None | Some mk \<Rightarrow> bid (sidePrices sd mk))
                            (sideEntryPrice sd (objects st a))
                     - sideEntryPrice sd (objects st a))"
proof -
  let ?st1 = "snd (storeGetMarket now marketId st)"
  let ?st2 = "?st1\<lparr> uuidCounter := Suc (uuidCounter ?st1) \<rparr>"
  let ?fp = "orElse (case fst (storeGetMarket now marketId st) of None \<Rightarrow> None
                     | Some m \<Rightarrow> bid (sidePrices sd m)) (sideEntryPrice sd (objects ?st1 a))"
  let ?ord = "\<lparr> to_orderId = uuidCounter ?st1, to_marketId = marketId,
                to_conditionId = ps_conditionId (objects ?st1 a),
                to_side = sd, to_action = SELL,
                to_size = sideTokens sd (objects ?st1 a) * ?fp,
                to_price = None, to_mode = PaperMode, to_timestamp = now \<rparr>"
  have fp: "?fp = orElse (case markets (marketStore st) marketId of
                               None \<Rightarrow> None | Some mk \<Rightarrow> bid (sidePrices sd mk))
                            (sideEntryPrice sd (objects st a))"
    by (simp add: storeGetMarket_eq getMarket_fst sidePrices_def split: option.splits Outcome.splits)
  have r: "rejects now ?ord ?st2"
  proof (cases "markets (marketStore st) marketId")
    case None
    then have "markets (marketStore ?st2) marketId = None"
      by (simp add: storeGetMarket_eq getMarket_snd getMarket_fst)
    then have "fst (resolveFillPrice now ?ord ?st2) = None"
      by (simp add: resolveFillPrice_None truthy_def)
    then show ?thesis by (simp add: rejects_def)
  next
    case (Some mk)
    then have "\<exists>mk'. markets (marketStore ?st2) marketId = Some mk' \<and> sidePrices sd mk' = sidePrices sd mk"
      by (simp add: storeGetMarket_eq getMarket_snd getMarket_fst sidePrices_def split: Outcome.splits)
    then obtain mk' where mk': "markets (marketStore ?st2) marketId = Some mk'"
       "sidePrices sd mk' = sidePrices sd mk" by blast
    have "fst (resolveFillPrice now ?ord ?st2) = Some (orElse (bid (sidePrices sd mk)) 0)"
      using resolveFillPrice_market[where order="?ord" and st="?st2" and mk="mk'" and now=now] mk'
      by simp
    then show ?thesis using rej Some by (simp add: rejects_def)
  qed
  have m: "to_mode ?ord = PaperMode" by simp
  note ex = executeTrade_rejected[OF m r]
  have "closeLeg now marketId a sd st =
          Inr ([rejectedResult now ?ord],
               (snd (resolveFillPrice now ?ord ?st2))\<lparr> realizedPnL :=
                   realizedPnL (snd (resolveFillPrice now ?ord ?st2)) +
                   sideTokens sd (objects (snd (resolveFillPrice now ?ord ?st2)) a)
                     * (?fp - sideEntryPrice sd (objects (snd (resolveFillPrice now ?ord ?st2)) a)) \<rparr>)"
    using tok ex
    by (simp add: closeLeg_def uuidv4_def Let_def storeGetMarket_eq)
  then show ?thesis
    unfolding fp
    by (simp add: resolveFillPrice_fields rejectedResult_def storeGetMarket_eq)
qed

text \<open>
  C10. \<open>closePosition\<close> is meant to add, for each outcome with tokens, tokens times
  (fill price minus entry price) to the realised profit. It computes this amount from
  the position object after \<open>executeTrade\<close> has run, and \<open>executeTrade\<close> has by then
  written the sale into that same object: on a filled leg the outcome has 0 tokens and
  entry price 0, and the amount is 0 (lemma \<open>closeLeg_filled_adds_nothing\<close>); only
  a rejected leg adds the amount (lemma \<open>closeLeg_rejected_accrues\<close>). With 10
  YES tokens entered at 0.4 and a best bid of 0.5 the sale is filled and credits 5 to
  the balance, the position is removed, and the realised profit stays 0, where
  \<open>10 * (0.5 - 0.4) = 1\<close> is due.
\<close>

theorem closePosition_filled_leg_realizes_nothing:
  "heldTokens YES ''m1'' (exHolding 10 (2/5) 0 0
       (exStore (exMarket (Some (1/2)) (Some (3/5)) None None))) = 10
   \<and> heldEntryPrice YES ''m1'' (exHolding 10 (2/5) 0 0
       (exStore (exMarket (Some (1/2)) (Some (3/5)) None None))) = 2/5
   \<and> realizedPnL (exHolding 10 (2/5) 0 0
       (exStore (exMarket (Some (1/2)) (Some (3/5)) None None))) = 0
   \<and> map status (fst (projr (closePosition 0 ''m1'' (exHolding 10 (2/5) 0 0
       (exStore (exMarket (Some (1/2)) (Some (3/5)) None None)))))) = [Filled]
   \<and> map averagePrice (fst (projr (closePosition 0 ''m1'' (exHolding 10 (2/5) 0 0
       (exStore (exMarket (Some (1/2)) (Some (3/5)) None None)))))) = [1/2]
   \<and> currentBalance (snd (projr (closePosition 0 ''m1'' (exHolding 10 (2/5) 0 0
       (exStore (exMarket (Some (1/2)) (Some (3/5)) None None)))))) = 1005
   \<and> positions (snd (projr (closePosition 0 ''m1'' (exHolding 10 (2/5) 0 0
       (exStore (exMarket (Some (1/2)) (Some (3/5)) None None)))))) ''m1'' = None
   \<and> realizedPnL (snd (projr (closePosition 0 ''m1'' (exHolding 10 (2/5) 0 0
       (exStore (exMarket (Some (1/2)) (Some (3/5)) None None)))))) = 0"
  by (simp add: closePosition_def closeLeg_def executeTrade_def resolveFillPrice_def
        updatePosition_def updatePositionPnL_def storeGetMarket_def getMarket_def uuidv4_def
        sidePrices_def sideTokens_def sideEntryPrice_def trimHistory_def rejectedResult_def
        orElse_def truthy_def firstTruthy_def isStale_def heldTokens_def heldEntryPrice_def
        exHolding_def exStore_def exMarket_def exBlank_def Let_def)


section \<open>Stored quotes\<close>

lemma quoteFrom_mono: "quoteFrom pf f us q \<Longrightarrow> set us \<subseteq> set vs \<Longrightarrow> quoteFrom pf f vs q"
  by (auto simp add: quoteFrom_def) blast

lemma quotesFrom_mono: "quotesFrom pf us m \<Longrightarrow> set us \<subseteq> set vs \<Longrightarrow> quotesFrom pf vs m"
  by (auto simp add: quotesFrom_def intro: quoteFrom_mono)

lemma quoteFrom_extract:
  "quoteFrom pf ob_bids ((now, u) # us) (extractBestBid pf (ob_bids u))"
  "quoteFrom pf ob_asks ((now, u) # us) (extractBestAsk pf (ob_asks u))"
  by (auto simp add: quoteFrom_def extractBestBid_def extractBestAsk_def split: list.splits)

lemma updateOrderBook_quotes:
  assumes "\<forall>k m. markets s k = Some m \<longrightarrow> quotesFrom pf done m"
      and "markets (updateOrderBook pf now u s) k = Some m"
  shows "quotesFrom pf ((now, u) # done) m"
proof (cases "k = updateKey u")
  case False
  then have "markets s k = Some m"
    using assms(2) by (simp add: updateOrderBook_def Let_def)
  then show ?thesis
    using assms(1) quotesFrom_mono[of pf "done" m "(now, u) # done"] by auto
next
  case True
  have old: "\<And>m0. markets s (updateKey u) = Some m0 \<Longrightarrow> quotesFrom pf ((now, u) # done) m0"
    using assms(1) quotesFrom_mono[of pf "done" _ "(now, u) # done"] by auto
  have none: "quoteFrom pf f ((now, u) # done) None" for f
    by (simp add: quoteFrom_def)
  show ?thesis
    using assms(2) True old quoteFrom_extract[of pf now u "done"] none
    by (cases "markets s (updateKey u)"; cases "ob_outcome u")
       (auto simp add: updateOrderBook_def Let_def quotesFrom_def createEmptyPrices_def)
qed

lemma updateOrderBooks_quotes:
  assumes "\<forall>k m. markets s k = Some m \<longrightarrow> quotesFrom pf done m"
      and "markets (updateOrderBooks pf us s) k = Some m"
  shows "quotesFrom pf (rev us @ done) m"
  using assms
proof (induction us arbitrary: s "done")
  case Nil
  then show ?case by simp
next
  case (Cons nu us)
  obtain now u where nu: "nu = (now, u)" by (cases nu)
  have step: "\<forall>k m. markets (updateOrderBook pf now u s) k = Some m \<longrightarrow> quotesFrom pf ((now, u) # done) m"
    using updateOrderBook_quotes[OF Cons.prems(1)] by blast
  have "quotesFrom pf (rev us @ (now, u) # done) m"
    using Cons.IH[OF step] Cons.prems(2) unfolding nu by simp
  then show ?case unfolding nu by simp
qed

text \<open>
  C3, as stated, fails: the store keeps whatever number \<open>parseFloat\<close> returns. After one
  update for YES of market \<open>m1\<close> whose first bid is priced \<open>1.5\<close> and whose first ask is
  priced \<open>0\<close>, the stored YES bid is 1.5 and the stored YES ask is 0.
\<close>

theorem updateOrderBook_range_counterexample:
  "markets (updateOrderBooks parseDecimal
       [(0, exUpdate YES [exLevel ''1.5''] [exLevel ''0''])] (newMarketStore 30000)) ''m1''
     = Some (exMarket (Some (3/2)) (Some 0) None None)
   \<and> bid (yesPrices (exMarket (Some (3/2)) (Some 0) None None)) = Some (3/2)
   \<and> \<not> ((3/2 :: real) \<le> 1)
   \<and> ask (yesPrices (exMarket (Some (3/2)) (Some 0) None None)) = Some 0
   \<and> \<not> (0 < (0 :: real))"
  by (simp add: updateOrderBook_def updateKey_def orStr_def extractBestBid_def
        extractBestAsk_def parseDecimal_def parseUnsigned_def digitVal_def isStale_def
        createEmptyPrices_def newMarketStore_def exUpdate_def exLevel_def exMarket_def Let_def)

text \<open>
  C3, amended. After any sequence of \<open>updateOrderBook\<close> calls on a new store, every
  stored bid of every market is \<open>null\<close> or the number that \<open>parseFloat\<close> returns for the
  price string of the first bid level of one of the updates, and every stored ask is
  \<open>null\<close> or the number parsed from the first ask level of one of the updates. No other
  value, and so no default price, is ever stored; the number is stored as parsed, whether
  or not it lies between 0 and 1.
\<close>

theorem stored_quotes_are_parsed_first_levels:
  assumes "markets (updateOrderBooks pf us (newMarketStore t)) k = Some m"
  shows "(\<forall>q \<in> {bid (yesPrices m), bid (noPrices m)}.
            q = None \<or> (\<exists>(now, u) \<in> set us. \<exists>lvl rest. ob_bids u = lvl # rest \<and> q = pf (lvl_price lvl)))
       \<and> (\<forall>q \<in> {ask (yesPrices m), ask (noPrices m)}.
            q = None \<or> (\<exists>(now, u) \<in> set us. \<exists>lvl rest. ob_asks u = lvl # rest \<and> q = pf (lvl_price lvl)))"
proof -
  have "\<forall>k m. markets (newMarketStore t) k = Some m \<longrightarrow> quotesFrom pf [] m"
    by (simp add: newMarketStore_def)
  from updateOrderBooks_quotes[OF this assms]
  have "quotesFrom pf (rev us) m" by simp
  then show ?thesis
    by (simp add: quotesFrom_def quoteFrom_def)
qed

theorem stored_quotes_are_parsed_first_levels_witness:
  "markets (updateOrderBooks parseDecimal
       [(0, exUpdate YES [exLevel ''1.5''] [])] (newMarketStore 30000)) ''m1''
     = Some (exMarket (Some (3/2)) None None None)
   \<and> bid (yesPrices (exMarket (Some (3/2)) None None None)) = parseDecimal ''1.5''
   \<and> ask (yesPrices (exMarket (Some (3/2)) None None None)) = None"
proof -
  have h: "markets (updateOrderBooks parseDecimal
       [(0, exUpdate YES [exLevel ''1.5''] [])] (newMarketStore 30000)) ''m1''
     = Some (exMarket (Some (3/2)) None None None)"
    by (simp add: updateOrderBook_def updateKey_def orStr_def extractBestBid_def
        extractBestAsk_def parseDecimal_def parseUnsigned_def digitVal_def isStale_def
        createEmptyPrices_def newMarketStore_def exUpdate_def exLevel_def exMarket_def Let_def)
  show ?thesis
    using h stored_quotes_are_parsed_first_levels [OF h]
    by (simp add: exMarket_def exUpdate_def exLevel_def)
qed

section \<open>The trade window of a tracked user\<close>

lemma windowSize_pos: "0 < windowSize cfg"
  by (simp add: windowSize_def split: option.splits)

lemma mapSet_keys_list:
  "map fst (mapSet m k v) = (if k \<in> set (map fst m) then map fst m else map fst m @ [k])"
proof (induction m)
  case Nil
  show ?case by simp
next
  case (Cons e m)
  obtain k' v' where e: "e = (k', v')" by (cases e)
  show ?case
    using Cons.IH unfolding e by (cases "k' = k") (auto simp del: set_map)
qed

lemma mapSet_keys: "fst ` set (mapSet m k v) = insert k (fst ` set m)"
proof -
  have "set (map fst (mapSet m k v)) = insert k (set (map fst m))"
    unfolding mapSet_keys_list by (auto simp del: set_map)
  then show ?thesis by simp
qed

lemma mapSet_length: "length (mapSet m k v) \<le> Suc (length m)"
  using arg_cong[OF mapSet_keys_list[of m k v], of length] by (simp del: set_map split: if_splits)

lemma mapSet_distinct: "distinct (map fst m) \<Longrightarrow> distinct (map fst (mapSet m k v))"
  unfolding mapSet_keys_list by (simp del: set_map)

lemma mapSet_absent: "k \<notin> fst ` set m \<Longrightarrow> mapSet m k v = m @ [(k, v)]"
proof (induction m)
  case Nil
  show ?case by simp
next
  case (Cons e m)
  obtain k' v' where e: "e = (k', v')" by (cases e)
  show ?case using Cons unfolding e by auto
qed

lemma mapSet_same: "(k, v) \<in> set m \<Longrightarrow> distinct (map fst m) \<Longrightarrow> mapSet m k v = m"
proof (induction m)
  case Nil
  then show ?case by simp
next
  case (Cons e m)
  obtain k' v' where e: "e = (k', v')" by (cases e)
  show ?case
  proof (cases "k' = k")
    case True
    then have "v' = v" using Cons.prems unfolding e by force
    then show ?thesis using True unfolding e by simp
  next
    case False
    then show ?thesis using Cons unfolding e by auto
  qed
qed

lemma mapDelete_first:
  "distinct (map fst ((k, v) # m)) \<Longrightarrow> mapDelete ((k, v) # m) k = m"
proof -
  assume "distinct (map fst ((k, v) # m))"
  then have "\<forall>e \<in> set m. fst e \<noteq> k" by force
  then show ?thesis by (simp add: mapDelete_def)
qed

lemma recordActivity_ok:
  assumes "windowOk w m" "transactionHash a \<noteq> []"
  shows "windowOk w (recordActivity w m a)"
proof (cases "countsAsTrade a")
  case False
  then show ?thesis using assms by (simp add: recordActivity_def)
next
  case True
  let ?m1 = "mapSet m (transactionHash a) (pt_size a)"
  have d: "distinct (map fst ?m1)" using assms(1) by (simp add: windowOk_def mapSet_distinct)
  have e: "[] \<notin> fst ` set ?m1" using assms by (simp add: windowOk_def mapSet_keys)
  have l: "length ?m1 \<le> Suc w"
    using assms(1) mapSet_length[of m "transactionHash a" "pt_size a"] by (simp add: windowOk_def)
  show ?thesis
  proof (cases "length ?m1 > w")
    case False
    then show ?thesis using True d e by (simp add: recordActivity_def windowOk_def Let_def)
  next
    case over: True
    then obtain k v rest where m1: "?m1 = (k, v) # rest" by (cases ?m1) auto
    have k: "k \<noteq> []" using e unfolding m1 by auto
    have del: "mapDelete ?m1 k = rest" using d unfolding m1 by (rule mapDelete_first)
    have "recordActivity w m a = rest"
      using True over k del by (simp add: recordActivity_def Let_def m1)
    moreover have "windowOk w rest"
      using d e l unfolding m1 by (auto simp add: windowOk_def)
    ultimately show ?thesis by simp
  qed
qed

lemma recordActivities_ok:
  "windowOk w m \<Longrightarrow> \<forall>a \<in> set as. transactionHash a \<noteq> [] \<Longrightarrow> windowOk w (recordActivities w m as)"
  by (induction as arbitrary: m) (simp_all add: recordActivity_ok)

lemma recordActivity_evicts_oldest:
  assumes "windowOk w m" "0 < w" "length m = w" "countsAsTrade a" "transactionHash a \<notin> fst ` set m"
  shows "recordActivity w m a = tl m @ [(transactionHash a, pt_size a)]"
proof -
  obtain k v rest where m: "m = (k, v) # rest" using assms(2,3) by (cases m) auto
  have k: "k \<noteq> []" using assms(1) unfolding m by (auto simp add: windowOk_def)
  have set: "mapSet m (transactionHash a) (pt_size a) = (k, v) # rest @ [(transactionHash a, pt_size a)]"
    using mapSet_absent[OF assms(5)] unfolding m by simp
  have d: "distinct (map fst ((k, v) # rest @ [(transactionHash a, pt_size a)]))"
    using assms(1,5) unfolding m by (auto simp add: windowOk_def)
  show ?thesis
    using assms(3,4) k mapDelete_first[OF d]
    by (simp add: recordActivity_def Let_def set) (simp add: m)
qed

lemma recordActivity_reinsert:
  assumes "windowOk w m" "countsAsTrade a" "(transactionHash a, pt_size a) \<in> set m"
  shows "recordActivity w m a = m"
  using assms mapSet_same[of "transactionHash a" "pt_size a" m]
  by (simp add: recordActivity_def Let_def windowOk_def)

text \<open>
  C8, as stated, fails for a window whose first key is the empty string: the eviction is
  guarded by the truth value of the first key, and the empty string is falsy. With a
  window length of 2, the trades with hashes \<open>''\<close>, \<open>h1\<close>, \<open>h2\<close> and \<open>h3\<close> leave a
  window of 4 entries, from which nothing was evicted.
\<close>

theorem trade_window_empty_hash_counterexample:
  "windowSize (exCopyCfg (Some 2)) = 2
   \<and> recordActivities (windowSize (exCopyCfg (Some 2))) []
        [exActivity [] 50 (Some TRADE), exActivity ''h1'' 100 (Some TRADE),
         exActivity ''h2'' 200 (Some TRADE), exActivity ''h3'' 300 (Some TRADE)]
      = [([], 50), (''h1'', 100), (''h2'', 200), (''h3'', 300)]
   \<and> length [([], 50 :: real), (''h1'', 100), (''h2'', 200), (''h3'', 300)] = 4"
proof -
  have w: "windowSize (exCopyCfg (Some 2)) = 2"
    by (simp add: windowSize_def exCopyCfg_def)
  show ?thesis
    by (simp add: w recordActivity_def countsAsTrade_def mapDelete_def exActivity_def Let_def)
qed

text \<open>
  C8, amended. Let the window of a user, of length \<open>W\<close>, be fed from empty with any
  sequence of activities whose transaction hashes are not empty. Then the window holds
  at most \<open>W\<close> entries; when it holds \<open>W\<close> entries, a trade with a hash that is not in it
  removes the first (oldest) entry and no other and is appended at the end; and a trade
  whose hash is in the window with the same size leaves the window as it is, and so its
  number of entries and the sum of its sizes.
\<close>

theorem trade_window_bounded_fifo:
  assumes "\<forall>a \<in> set acts. transactionHash a \<noteq> []"
  shows "length (recordActivities (windowSize cfg) [] acts) \<le> windowSize cfg
       \<and> (\<forall>a. countsAsTrade a
              \<and> length (recordActivities (windowSize cfg) [] acts) = windowSize cfg
              \<and> transactionHash a \<notin> set (map fst (recordActivities (windowSize cfg) [] acts))
            \<longrightarrow> recordActivity (windowSize cfg) (recordActivities (windowSize cfg) [] acts) a
                  = tl (recordActivities (windowSize cfg) [] acts)
                    @ [(transactionHash a, pt_size a)])
       \<and> (\<forall>a. countsAsTrade a
              \<and> (transactionHash a, pt_size a) \<in> set (recordActivities (windowSize cfg) [] acts)
            \<longrightarrow> recordActivity (windowSize cfg) (recordActivities (windowSize cfg) [] acts) a
                  = recordActivities (windowSize cfg) [] acts
                \<and> length (recordActivity (windowSize cfg)
                            (recordActivities (windowSize cfg) [] acts) a)
                  = length (recordActivities (windowSize cfg) [] acts)
                \<and> sum_list (map snd (recordActivity (windowSize cfg)
                            (recordActivities (windowSize cfg) [] acts) a))
                  = sum_list (map snd (recordActivities (windowSize cfg) [] acts)))"
proof -
  have "windowOk (windowSize cfg) []" by (simp add: windowOk_def)
  then have ok: "windowOk (windowSize cfg) (recordActivities (windowSize cfg) [] acts)"
    using assms by (rule recordActivities_ok)
  show ?thesis
    using ok recordActivity_evicts_oldest[OF ok windowSize_pos] recordActivity_reinsert[OF ok]
    by (simp add: windowOk_def)
qed

theorem trade_window_bounded_fifo_witness:
  "transactionHash (exActivity ''h1'' 100 (Some TRADE)) \<noteq> []
   \<and> transactionHash (exActivity ''h2'' 200 None) \<noteq> []
   \<and> recordActivities (windowSize (exCopyCfg (Some 2))) []
        [exActivity ''h1'' 100 (Some TRADE), exActivity ''h2'' 200 None]
      = [(''h1'', 100), (''h2'', 200)]
   \<and> recordActivity (windowSize (exCopyCfg (Some 2))) [(''h1'', 100), (''h2'', 200)]
        (exActivity ''h3'' 300 (Some TRADE))
      = [(''h2'', 200), (''h3'', 300)]
   \<and> recordActivity (windowSize (exCopyCfg (Some 2))) [(''h1'', 100), (''h2'', 200)]
        (exActivity ''h2'' 200 (Some TRADE))
      = [(''h1'', 100), (''h2'', 200)]"
proof -
  let ?acts = "[exActivity ''h1'' 100 (Some TRADE), exActivity ''h2'' 200 None]"
  let ?cfg = "exCopyCfg (Some 2)"
  have h: "\<forall>a \<in> set ?acts. transactionHash a \<noteq> []"
    by (simp add: exActivity_def)
  have w: "windowSize ?cfg = 2"
    by (simp add: windowSize_def exCopyCfg_def)
  have r: "recordActivities (windowSize ?cfg) [] ?acts = [(''h1'', 100), (''h2'', 200)]"
    by (simp add: w recordActivity_def countsAsTrade_def exActivity_def Let_def)
  have a3: "countsAsTrade (exActivity ''h3'' 300 (Some TRADE))"
    "transactionHash (exActivity ''h3'' 300 (Some TRADE)) = ''h3''"
    "pt_size (exActivity ''h3'' 300 (Some TRADE)) = 300"
    "countsAsTrade (exActivity ''h2'' 200 (Some TRADE))"
    "transactionHash (exActivity ''h2'' 200 (Some TRADE)) = ''h2''"
    "pt_size (exActivity ''h2'' 200 (Some TRADE)) = 200"
    by (simp_all add: countsAsTrade_def exActivity_def)
  note t = trade_window_bounded_fifo [OF h, of ?cfg, unfolded r]
  have e: "recordActivity (windowSize ?cfg) [(''h1'', 100), (''h2'', 200)]
        (exActivity ''h3'' 300 (Some TRADE)) = [(''h2'', 200), (''h3'', 300)]"
    using t [THEN conjunct2, THEN conjunct1, THEN spec, of "exActivity ''h3'' 300 (Some TRADE)"]
    by (simp add: a3 w)
  have s: "recordActivity (windowSize ?cfg) [(''h1'', 100), (''h2'', 200)]
        (exActivity ''h2'' 200 (Some TRADE)) = [(''h1'', 100), (''h2'', 200)]"
    using t [THEN conjunct2, THEN conjunct2, THEN spec, of "exActivity ''h2'' 200 (Some TRADE)"]
    by (simp add: a3)
  show ?thesis
    using r e s by (simp add: exActivity_def)
qed

section \<open>Proportional copy size\<close>

lemma recentVolume_sum:
  "recentVolume m h = sum_list (map snd (filter (\<lambda>e. fst e \<noteq> h) m))"
  by (induction m) auto

text \<open>
  C4, as stated, fails when a configured value is 0: the function then works with its
  default. With \<open>minTradeSize\<close> configured as 0, \<open>maxTradeSize\<close> 1000, a window volume of
  2000 without the trade's own entry and a trade of size 10, the stated clamp of
  \<open>1000 * (10 / 2000) = 5\<close> to the interval from 0 to 1000 is 5, and the function
  returns 10.
\<close>

theorem proportional_copy_size_counterexample:
  "minTradeSize ((exCopyCfg None)\<lparr> minTradeSize := Some 0 \<rparr>) = Some 0
   \<and> maxTradeSize ((exCopyCfg None)\<lparr> minTradeSize := Some 0 \<rparr>) = Some 1000
   \<and> minVolumeForScaling ((exCopyCfg None)\<lparr> minTradeSize := Some 0 \<rparr>) = Some 1000
   \<and> recentVolume [(''h1'', 1000), (''h2'', 1000), (''h3'', 10)] ''h3'' = 2000
   \<and> min (max 0 (1000 * (10 / 2000))) 1000 = (5 :: real)
   \<and> calculateProportionalSize ((exCopyCfg None)\<lparr> minTradeSize := Some 0 \<rparr>)
        [''0xabc'' \<mapsto> [(''h1'', 1000), (''h2'', 1000), (''h3'', 10)]] 10 ''h3'' ''0xABC''
      = 10"
proof -
  have lc: "toLowerCase ''0xABC'' = ''0xabc''"
    by code_simp
  show ?thesis
    by (simp add: calculateProportionalSize_def lc orElse_def exCopyCfg_def Let_def)
qed

text \<open>
  C4, amended. Write \<open>minTradeSize\<close>, \<open>maxTradeSize\<close> and \<open>minVolumeForScaling\<close> for the
  values the function works with: the configured value, or 10, 1000 and 1000 where none
  is configured or 0 is configured. Write \<open>S\<close> for the size of the new trade and \<open>V\<close> for
  the sum of the sizes in the window of the user without the entry of the trade's own
  hash. The copy size is \<open>max minTradeSize (0.10 * maxTradeSize)\<close> when the user has no
  window or one of fewer than 2 entries; else \<open>max minTradeSize (0.05 * maxTradeSize)\<close>
  when \<open>V < minVolumeForScaling\<close>; else
  \<open>min (max minTradeSize (maxTradeSize * (S / V))) maxTradeSize\<close>.
  (In the last case \<open>V\<close> is taken to be non-zero, for the division.)
\<close>

theorem proportional_copy_size:
  "(effMinTradeSize cfg
      = (case minTradeSize cfg of None \<Rightarrow> 10 | Some v \<Rightarrow> if v = 0 then 10 else v)
    \<and> effMaxTradeSize cfg
      = (case maxTradeSize cfg of None \<Rightarrow> 1000 | Some v \<Rightarrow> if v = 0 then 1000 else v)
    \<and> effMinVolumeForScaling cfg
      = (case minVolumeForScaling cfg of None \<Rightarrow> 1000 | Some v \<Rightarrow> if v = 0 then 1000 else v))
   \<and> (userHist (toLowerCase userAddress) = None
      \<or> (\<exists>m. userHist (toLowerCase userAddress) = Some m \<and> length m < 2)
     \<longrightarrow> calculateProportionalSize cfg userHist S tradeHash userAddress
           = max (effMinTradeSize cfg) (0.10 * effMaxTradeSize cfg))
   \<and> (\<forall>m V. userHist (toLowerCase userAddress) = Some m \<and> 2 \<le> length m
          \<and> V = sum_list (map snd (filter (\<lambda>e. fst e \<noteq> tradeHash) m))
        \<longrightarrow> (V < effMinVolumeForScaling cfg
               \<longrightarrow> calculateProportionalSize cfg userHist S tradeHash userAddress
                     = max (effMinTradeSize cfg) (0.05 * effMaxTradeSize cfg))
          \<and> (effMinVolumeForScaling cfg \<le> V \<and> V \<noteq> 0
               \<longrightarrow> calculateProportionalSize cfg userHist S tradeHash userAddress
                     = min (max (effMinTradeSize cfg) (effMaxTradeSize cfg * (S / V)))
                           (effMaxTradeSize cfg)))"
proof (intro conjI)
  show "effMinTradeSize cfg
      = (case minTradeSize cfg of None \<Rightarrow> 10 | Some v \<Rightarrow> if v = 0 then 10 else v)"
    and "effMaxTradeSize cfg
      = (case maxTradeSize cfg of None \<Rightarrow> 1000 | Some v \<Rightarrow> if v = 0 then 1000 else v)"
    and "effMinVolumeForScaling cfg
      = (case minVolumeForScaling cfg of None \<Rightarrow> 1000 | Some v \<Rightarrow> if v = 0 then 1000 else v)"
    by (simp_all add: effMinTradeSize_def effMaxTradeSize_def effMinVolumeForScaling_def
          orElse_def split: option.splits)
  show "userHist (toLowerCase userAddress) = None
      \<or> (\<exists>m. userHist (toLowerCase userAddress) = Some m \<and> length m < 2)
     \<longrightarrow> calculateProportionalSize cfg userHist S tradeHash userAddress
           = max (effMinTradeSize cfg) (0.10 * effMaxTradeSize cfg)"
    by (auto simp add: calculateProportionalSize_def effMinTradeSize_def effMaxTradeSize_def
          Let_def)
  show "\<forall>m V. userHist (toLowerCase userAddress) = Some m \<and> 2 \<le> length m
          \<and> V = sum_list (map snd (filter (\<lambda>e. fst e \<noteq> tradeHash) m))
        \<longrightarrow> (V < effMinVolumeForScaling cfg
               \<longrightarrow> calculateProportionalSize cfg userHist S tradeHash userAddress
                     = max (effMinTradeSize cfg) (0.05 * effMaxTradeSize cfg))
          \<and> (effMinVolumeForScaling cfg \<le> V \<and> V \<noteq> 0
               \<longrightarrow> calculateProportionalSize cfg userHist S tradeHash userAddress
                     = min (max (effMinTradeSize cfg) (effMaxTradeSize cfg * (S / V)))
                           (effMaxTradeSize cfg))"
    by (auto simp add: calculateProportionalSize_def effMinTradeSize_def effMaxTradeSize_def
          effMinVolumeForScaling_def recentVolume_sum Let_def)
qed

theorem proportional_copy_size_witness:
  "[''0xabc'' \<mapsto> [(''h1'', 600), (''h2'', 900), (''h3'', 500)]] (toLowerCase ''0xABC'')
     = Some [(''h1'', 600), (''h2'', 900), (''h3'', 500 :: real)]
   \<and> effMinVolumeForScaling (exCopyCfg None) \<le> 1500
   \<and> calculateProportionalSize (exCopyCfg None)
        [''0xabc'' \<mapsto> [(''h1'', 600), (''h2'', 900), (''h3'', 500)]] 500 ''h3'' ''0xABC''
      = 1000 / 3"
proof -
  let ?m = "[(''h1'', 600), (''h2'', 900), (''h3'', 500 :: real)]"
  let ?uh = "[''0xabc'' \<mapsto> ?m]"
  have lc: "toLowerCase ''0xABC'' = ''0xabc''"
    by code_simp
  have h: "?uh (toLowerCase ''0xABC'') = Some ?m"
    by (simp add: lc)
  have v: "sum_list (map snd (filter (\<lambda>e. fst e \<noteq> ''h3'') ?m)) = 1500"
    by simp
  have c: "effMinTradeSize (exCopyCfg None) = 10" "effMaxTradeSize (exCopyCfg None) = 1000"
    "effMinVolumeForScaling (exCopyCfg None) = 1000"
    by (simp_all add: effMinTradeSize_def effMaxTradeSize_def effMinVolumeForScaling_def
          orElse_def exCopyCfg_def)
  have "calculateProportionalSize (exCopyCfg None) ?uh 500 ''h3'' ''0xABC''
          = min (max (effMinTradeSize (exCopyCfg None))
                     (effMaxTradeSize (exCopyCfg None) * (500 / 1500)))
                (effMaxTradeSize (exCopyCfg None))"
    using proportional_copy_size [where userHist="?uh" and userAddress="''0xABC''"
        and cfg="exCopyCfg None" and S=500 and tradeHash="''h3''",
        THEN conjunct2, THEN conjunct2, THEN spec, THEN spec, of ?m 1500] h v
    by (simp add: c)
  then show ?thesis
    using h by (simp add: c)
qed

end
